theory Spec2Isabelle
  imports
    Complex_Main
    "HOL-Library.Char_ord"
    "HOL-Library.List_Lexorder"
    "HOL-Library.Product_Lexorder"
begin

section \<open>Python strings and formatting\<close>

text \<open>
  Strings are lists of characters, compared lexicographically by character code, as
  Python compares them. The character classes are those of the regular expressions
  in \<^verbatim>\<open>catalog.py\<close>: \<^verbatim>\<open>[0-9]\<close>, \<^verbatim>\<open>[a-zA-Z]\<close>, and the white space at which
  \<^verbatim>\<open>str.split()\<close> cuts.
\<close>

definition is_digit :: "char \<Rightarrow> bool" where
  "is_digit c = (48 \<le> (of_char c :: nat) \<and> (of_char c :: nat) \<le> 57)"

definition is_upper :: "char \<Rightarrow> bool" where
  "is_upper c = (65 \<le> (of_char c :: nat) \<and> (of_char c :: nat) \<le> 90)"

definition is_lower :: "char \<Rightarrow> bool" where
  "is_lower c = (97 \<le> (of_char c :: nat) \<and> (of_char c :: nat) \<le> 122)"

definition is_alpha :: "char \<Rightarrow> bool" where
  "is_alpha c = (is_upper c \<or> is_lower c)"

definition is_space :: "char \<Rightarrow> bool" where
  "is_space c = ((of_char c :: nat) = 32 \<or> (9 \<le> (of_char c :: nat) \<and> (of_char c :: nat) \<le> 13))"

definition upper_char :: "char \<Rightarrow> char" where
  "upper_char c = (if is_lower c then char_of ((of_char c :: nat) - 32) else c)"

definition lower_char :: "char \<Rightarrow> char" where
  "lower_char c = (if is_upper c then char_of ((of_char c :: nat) + 32) else c)"

definition upper :: "string \<Rightarrow> string" where
  "upper s = map upper_char s"

definition lower :: "string \<Rightarrow> string" where
  "lower s = map lower_char s"

text \<open>
  \<^verbatim>\<open>capitalize\<close> (imported from \<^verbatim>\<open>calibre.utils.icu\<close>, and the built-in
  \<^verbatim>\<open>str.capitalize\<close>): the first character in upper case, the rest in lower case.
  The library function is not part of the source file; it is modelled on ASCII.
\<close>

fun capitalize :: "string \<Rightarrow> string" where
  "capitalize [] = []"
| "capitalize (c # cs) = upper_char c # lower cs"

text \<open>\<^verbatim>\<open>sep.join(words)\<close>\<close>

fun join :: "string \<Rightarrow> string list \<Rightarrow> string" where
  "join sep [] = []"
| "join sep [w] = w"
| "join sep (w # v # ws) = w @ sep @ join sep (v # ws)"

text \<open>\<^verbatim>\<open>s.split()\<close>: the maximal runs of characters that are not white space.\<close>

fun split_acc :: "string \<Rightarrow> string \<Rightarrow> string list" where
  "split_acc w [] = (if w = [] then [] else [w])"
| "split_acc w (c # cs) =
     (if is_space c then (if w = [] then split_acc [] cs else w # split_acc [] cs)
      else split_acc (w @ [c]) cs)"

definition split :: "string \<Rightarrow> string list" where
  "split s = split_acc [] s"

text \<open>Decimal digits of a natural number, as \<^verbatim>\<open>'%d' % n\<close> prints them.\<close>

definition digit_char :: "nat \<Rightarrow> char" where
  "digit_char d = char_of (48 + d)"

fun show_nat :: "nat \<Rightarrow> string" where
  "show_nat n = (if n < 10 then [digit_char n] else show_nat (n div 10) @ [digit_char (n mod 10)])"

declare show_nat.simps [simp del]

text \<open>The value of a string of decimal digits, as \<^verbatim>\<open>int(s)\<close> reads it.\<close>

definition digit_val :: "char \<Rightarrow> nat" where
  "digit_val c = (of_char c :: nat) - 48"

definition read_nat :: "string \<Rightarrow> nat" where
  "read_nat s = foldl (\<lambda>n c. 10 * n + digit_val c) 0 s"

text \<open>Right-alignment in a field of width \<open>w\<close>, as \<^verbatim>\<open>'%10...'\<close> pads with spaces.\<close>

definition rjust :: "nat \<Rightarrow> string \<Rightarrow> string" where
  "rjust w s = replicate (w - length s) (CHR '' '') @ s"

text \<open>Left padding with zeros, as \<^verbatim>\<open>'%04d'\<close> pads.\<close>

definition zjust :: "nat \<Rightarrow> string \<Rightarrow> string" where
  "zjust w s = replicate (w - length s) (CHR ''0'') @ s"

text \<open>
  Python floats are modelled by the rationals: every finite double is one. A string of
  decimal digits read by \<^verbatim>\<open>float()\<close> is rounded to the nearest double (53 significant
  bits, ties to even); below \<open>2 ^ 53\<close> the value is exact.
\<close>

fun bitlen :: "nat \<Rightarrow> nat" where
  "bitlen n = (if n = 0 then 0 else Suc (bitlen (n div 2)))"

declare bitlen.simps [simp del]

definition float_of_nat :: "nat \<Rightarrow> nat" where
  "float_of_nat n =
     (if n < 2 ^ 53 then n
      else let e = bitlen n - 53; q = n div 2 ^ e; r = n mod 2 ^ e; h = 2 ^ (e - 1)
           in (if h < r \<or> (r = h \<and> odd q) then q + 1 else q) * 2 ^ e)"

text \<open>
  \<^verbatim>\<open>'%10.0f' % float(digits)\<close>: the integer value of the double, right-aligned in ten
  columns; a double beyond the largest finite one prints as \<^verbatim>\<open>inf\<close>.
\<close>

definition fmt_10_0f :: "nat \<Rightarrow> string" where
  "fmt_10_0f n =
     (let x = float_of_nat n
      in if 2 ^ 1024 \<le> x then rjust 10 ''inf'' else rjust 10 (show_nat x))"

text \<open>Rounding a non-negative rational to the nearest integer, ties to even.\<close>

definition round_half_even :: "rat \<Rightarrow> nat" where
  "round_half_even r =
     (let f = nat \<lfloor>r\<rfloor>; d = r - of_nat f
      in if d < 1 / 2 then f else if 1 / 2 < d then f + 1 else if even f then f else f + 1)"

text \<open>\<^verbatim>\<open>'%.kf' % q\<close> for \<open>k > 0\<close>: \<open>q\<close> rounded to \<open>k\<close> decimals.\<close>

definition fmt_fixed :: "nat \<Rightarrow> rat \<Rightarrow> string" where
  "fmt_fixed k q =
     (let s = round_half_even (\<bar>q\<bar> * 10 ^ k)
      in (if q < 0 then [CHR ''-''] else []) @ show_nat (s div 10 ^ k) @ [CHR ''.''] @
         zjust k (show_nat (s mod 10 ^ k)))"

section \<open>Sort-key synthesis: \<^verbatim>\<open>letter_or_symbol\<close> and \<^verbatim>\<open>generateSortTitle\<close>\<close>

definition letter_or_symbol :: "char \<Rightarrow> string" where
  "letter_or_symbol c = (if \<not> is_alpha c then ''Symbols'' else [c])"

text \<open>
  The number branch of \<^verbatim>\<open>generateSortTitle\<close>: commas are removed, the first non-digit
  starts the suffix, and the digits before it are printed with \<^verbatim>\<open>%10.0f\<close>. It is
  only reached for a word whose first character is a digit, so the digit prefix is
  never empty.
\<close>

definition format_number_word :: "string \<Rightarrow> string" where
  "format_number_word word =
     (let w = filter (\<lambda>c. c \<noteq> CHR '','') word
      in if \<exists>c \<in> set w. \<not> is_digit c
         then fmt_10_0f (read_nat (takeWhile is_digit w)) @ dropWhile is_digit w
         else fmt_10_0f (read_nat w))"

text \<open>
  The loop over \<^verbatim>\<open>enumerate(title_words)\<close>, returning \<^verbatim>\<open>translated\<close>. The words come
  from \<^verbatim>\<open>split()\<close> and are not empty.
\<close>

fun translate_words :: "nat \<Rightarrow> string list \<Rightarrow> string list" where
  "translate_words i [] = []"
| "translate_words i (word # ws) =
     (if i = 0 then
        (let w = (if is_digit (hd word) then format_number_word word else word)
         in (if letter_or_symbol (hd w) \<noteq> [hd w] \<and>
                (CHR ''A'' < hd w \<or> (57 < (of_char (hd w) :: nat) \<and> (of_char (hd w) :: nat) < 65))
             then [[CHR ''/'']] else []) @ [capitalize w])
      else [if is_digit (hd word) then format_number_word word else word])
     @ translate_words (Suc i) ws"

text \<open>
  \<^verbatim>\<open>title_sort\<close> comes from \<^verbatim>\<open>calibre.ebooks.metadata\<close>, which is not part of the
  source file: it is the parameter \<open>tsort\<close>.
\<close>

definition generateSortTitle :: "(string \<Rightarrow> string) \<Rightarrow> string \<Rightarrow> string" where
  "generateSortTitle tsort t = join [CHR '' ''] (translate_words 0 (split (tsort t)))"

text \<open>The number a word starts with: the value of its digits up to the first other character, commas left out.\<close>

definition leading_number :: "string \<Rightarrow> nat" where
  "leading_number word = read_nat (takeWhile is_digit (filter (\<lambda>c. c \<noteq> CHR '','') word))"

text \<open>A space or a digit: the characters of a number printed with \<^verbatim>\<open>%10.0f\<close>.\<close>

definition plain :: "char \<Rightarrow> bool" where
  "plain c = (c = CHR '' '' \<or> is_digit c)"

section \<open>Book records\<close>

text \<open>
  A date and time with the fields of Python's \<^verbatim>\<open>datetime\<close>. Two values compare
  field by field, the year first.
\<close>

record datetime =
  year :: int
  month :: int
  day :: int
  hour :: int
  minute :: int
  second :: int
  microsecond :: int

text \<open>
  The per-book dictionary \<^verbatim>\<open>this_title\<close> built by \<^verbatim>\<open>fetchBooksByTitle\<close>, with the
  keys the modelled functions read. A missing \<^verbatim>\<open>series\<close> or \<^verbatim>\<open>cover\<close> is \<open>None\<close>.
\<close>

record book =
  book_id :: nat
  uuid :: string
  title :: string
  title_sort :: string
  author :: string
  author_sort :: string
  series :: "string option"
  series_index :: rat
  timestamp :: datetime
  tags :: "string list"
  cover :: "string option"

section \<open>Sorting by author\<close>

definition author_to_author_sort :: "string \<Rightarrow> string" where
  "author_to_author_sort a =
     (let tokens = split a;
          tokens = (if tokens = [] then [] else last tokens # butlast tokens);
          tokens = (if 1 < length tokens then (hd tokens @ [CHR '','']) # tl tokens else tokens)
      in capitalize (join [CHR '' ''] tokens))"

text \<open>
  \<^verbatim>\<open>'%04d%s' % (integer, str('%0.4f' % fraction).lstrip('0'))\<close>, for a series index
  that is not negative.
\<close>

definition series_index_key :: "rat \<Rightarrow> string" where
  "series_index_key index =
     (let integer = nat \<lfloor>index\<rfloor>; fraction = index - of_nat integer
      in zjust 4 (show_nat integer) @ dropWhile (\<lambda>c. c = CHR ''0'') (fmt_fixed 4 fraction))"

definition booksByAuthorSorter_author_sort :: "(string \<Rightarrow> string) \<Rightarrow> book \<Rightarrow> string" where
  "booksByAuthorSorter_author_sort tsort b =
     (case series b of
        None \<Rightarrow> capitalize (author_sort b) @ '' '' @ capitalize (title_sort b)
      | Some s \<Rightarrow>
          (if s = [] then capitalize (author_sort b) @ '' '' @ capitalize (title_sort b)
           else capitalize (author_sort b) @ '' ~'' @ generateSortTitle tsort s @ '' '' @
                series_index_key (series_index b)))"

definition booksByAuthorSorter_author :: "(string \<Rightarrow> string) \<Rightarrow> book \<Rightarrow> string" where
  "booksByAuthorSorter_author tsort b =
     (case series b of
        None \<Rightarrow> author_to_author_sort (author b) @ '' '' @ capitalize (title_sort b)
      | Some s \<Rightarrow>
          (if s = [] then author_to_author_sort (author b) @ '' '' @ capitalize (title_sort b)
           else author_to_author_sort (author b) @ '' ~'' @ generateSortTitle tsort s @ '' '' @
                series_index_key (series_index b)))"

section \<open>Dates\<close>

text \<open>
  The day number of a date (\<^verbatim>\<open>date.toordinal\<close>), the difference of two dates and times
  in whole days (\<^verbatim>\<open>(a - b).days\<close>, rounded down), and the order of two dates and
  times, which is that of their fields taken from the year down.
\<close>

definition is_leap :: "int \<Rightarrow> bool" where
  "is_leap y = (y mod 4 = 0 \<and> (y mod 100 \<noteq> 0 \<or> y mod 400 = 0))"

definition days_before_year :: "int \<Rightarrow> int" where
  "days_before_year y = (y - 1) * 365 + (y - 1) div 4 - (y - 1) div 100 + (y - 1) div 400"

definition days_before_month :: "int \<Rightarrow> int \<Rightarrow> int" where
  "days_before_month y m =
     [0, 31, 59, 90, 120, 151, 181, 212, 243, 273, 304, 334] ! nat (m - 1) +
     (if 2 < m \<and> is_leap y then 1 else 0)"

definition toordinal :: "datetime \<Rightarrow> int" where
  "toordinal d = days_before_year (year d) + days_before_month (year d) (month d) + day d"

definition microseconds :: "datetime \<Rightarrow> int" where
  "microseconds d =
     (((toordinal d * 24 + hour d) * 60 + minute d) * 60 + second d) * 1000000 + microsecond d"

definition delta_days :: "datetime \<Rightarrow> datetime \<Rightarrow> int" where
  "delta_days a b = (microseconds a - microseconds b) div 86400000000"

definition dt_key :: "datetime \<Rightarrow> int \<times> int \<times> int \<times> int \<times> int \<times> int \<times> int" where
  "dt_key d = (year d, month d, day d, hour d, minute d, second d, microsecond d)"

text \<open>\<^verbatim>\<open>sorted(xs, key=f, reverse=True)\<close>: descending, and stable as well.\<close>

definition sorted_rev :: "('a \<Rightarrow> 'k::linorder) \<Rightarrow> 'a list \<Rightarrow> 'a list" where
  "sorted_rev f xs = rev (sort_key f (rev xs))"

definition show_int :: "int \<Rightarrow> string" where
  "show_int i = (if i < 0 then [CHR ''-''] @ show_nat (nat (- i)) else show_nat (nat i))"

section \<open>The catalog builder\<close>

text \<open>The options the modelled functions read.\<close>

record opts =
  generate_authors :: bool
  generate_titles :: bool
  generate_series :: bool
  generate_genres :: bool
  generate_recently_added :: bool
  generate_descriptions :: bool
  sort_descriptions_by_author :: bool
  section_list :: "string list"
  exclude_tags :: string

text \<open>A record as the database search returns it.\<close>

record db_record =
  r_id :: nat
  r_uuid :: string
  r_title :: string
  r_series :: "string option"
  r_series_index :: rat
  r_authors :: "string list"
  r_author_sort :: "string option"
  r_timestamp :: datetime
  r_tags :: "string list"
  r_cover :: "string option"

text \<open>
  What the builder takes from outside the source file: the library functions
  \<^verbatim>\<open>title_sort\<close> and \<^verbatim>\<open>icu_title\<close>; the entity table behind \<^verbatim>\<open>convertHTMLEntities\<close>;
  whether the regular expression \<^verbatim>\<open>opts.exclude_genre\<close> matches a tag; the tag that
  marks a book as read, if the marker is a tag; the results of the database calls
  \<^verbatim>\<open>search_sort_db\<close> (for all books and for the books with a series, after
  \<^verbatim>\<open>processExclusions\<close>) and \<^verbatim>\<open>all_tags\<close>; the books whose cover makes a thumbnail; and the
  clock.
\<close>

record env =
  title_sort_fn :: "string \<Rightarrow> string"
  icu_title :: "string \<Rightarrow> string"
  convertHTMLEntities :: "string \<Rightarrow> string"
  exclude_genre :: "string \<Rightarrow> bool"
  read_tag :: "string option"
  search_titles :: "db_record list"
  search_series :: "db_record list"
  all_tags :: "string list"
  cover_ok :: "book \<Rightarrow> bool"
  now :: datetime

text \<open>An entry of \<^verbatim>\<open>self.genres\<close>.\<close>

record genre =
  g_tag :: string
  g_file :: string
  g_books :: "book list"

text \<open>
  The navigation document. Its tree is three levels deep: the periodical
  \<^verbatim>\<open>navPoint\<close>, the section \<^verbatim>\<open>navPoint\<close>s in it, and the article \<^verbatim>\<open>navPoint\<close>s in each
  section. A \<^verbatim>\<open>navPoint\<close> has a \<^verbatim>\<open>playOrder\<close> attribute or not, and a \<^verbatim>\<open>content\<close> tag
  with a \<^verbatim>\<open>src\<close>.
\<close>

record article =
  a_id :: string
  a_playOrder :: "nat option"
  a_src :: string

record nav_section =
  s_id :: string
  s_playOrder :: "nat option"
  s_src :: string
  s_articles :: "article list"

record ncx =
  n_playOrder :: "nat option"
  n_src :: string
  n_sections :: "nav_section list"

text \<open>The \<^verbatim>\<open>playOrder\<close> attributes of all \<^verbatim>\<open>navPoint\<close>s, in document order.\<close>

definition play_orders :: "ncx \<Rightarrow> nat option list" where
  "play_orders n =
     n_playOrder n # concat (map (\<lambda>s. s_playOrder s # map a_playOrder (s_articles s)) (n_sections n))"

text \<open>The \<^verbatim>\<open>src\<close> attributes of all \<^verbatim>\<open>content\<close> tags, in document order.\<close>

definition content_srcs :: "ncx \<Rightarrow> string list" where
  "content_srcs n = n_src n # concat (map (\<lambda>s. s_src s # map a_src (s_articles s)) (n_sections n))"

text \<open>The file a \<^verbatim>\<open>src\<close> names: what comes before the \<^verbatim>\<open>#\<close> of the anchor.\<close>

definition src_file :: "string \<Rightarrow> string" where
  "src_file s = takeWhile (\<lambda>c. c \<noteq> CHR ''#'') s"


section \<open>\<^verbatim>\<open>fetchBooksByAuthor\<close>\<close>

text \<open>
  Python's \<^verbatim>\<open>sorted(xs, key=f)\<close> is stable, like \<^const>\<open>sort_key\<close>. An index into an
  empty list raises \<^verbatim>\<open>IndexError\<close>, a missing dictionary key \<^verbatim>\<open>KeyError\<close>, an operation on
  a value of the wrong type \<^verbatim>\<open>TypeError\<close>, a file that
  cannot be opened \<^verbatim>\<open>IOError\<close>; \<open>ThumbnailError\<close> stands for whatever the image codec
  raises on data it cannot decode.
\<close>

datatype py_error = IndexError | KeyError | TypeError | IOError | ThumbnailError | NameError

text \<open>
  The first loop: \<^verbatim>\<open>current_author\<close> is compared with each \<^verbatim>\<open>(author, author_sort)\<close>
  pair in turn; the result is the pair of entries at which the loop returns
  \<^verbatim>\<open>False\<close>, if any.
\<close>

fun mismatch_loop ::
  "nat \<Rightarrow> string \<times> string \<Rightarrow> (string \<times> string) list \<Rightarrow>
   ((string \<times> string) \<times> (string \<times> string)) option" where
  "mismatch_loop i current_author [] = None"
| "mismatch_loop i current_author (a # as) =
     (if a \<noteq> current_author \<and> i \<noteq> 0 then
        (if fst a = fst current_author then Some (a, current_author)
         else mismatch_loop (Suc i) a as)
      else mismatch_loop (Suc i) current_author as)"

text \<open>
  Two neighbours in a list of \<^verbatim>\<open>(author, author_sort)\<close> pairs that differ but have the
  same author.
\<close>

fun adjacent_mismatch :: "(string \<times> string) list \<Rightarrow> bool" where
  "adjacent_mismatch (x # y # zs) = ((y \<noteq> x \<and> fst y = fst x) \<or> adjacent_mismatch (y # zs))"
| "adjacent_mismatch zs = False"

definition author_sort_error_msg :: "string \<times> string \<Rightarrow> string \<times> string \<Rightarrow> string" where
  "author_sort_error_msg a current_author =
     [CHR 0x0A] @ ''Inconsistent Author Sort values for Author '' @ [CHR 0x27] @ fst a @
     [CHR 0x27] @ '':'' @ [CHR 0x0A, CHR 0x27] @ snd a @ [CHR 0x27] @ '' <> '' @ [CHR 0x27] @
     snd current_author @ [CHR 0x27] @ '','' @ [CHR 0x0A] @ ''unable to build catalog.'' @
     [CHR 0x0A, CHR 0x0A] @ ''Select all books by '' @ [CHR 0x27] @ fst a @ [CHR 0x27] @
     '', apply correct Author Sort value in Edit Metadata dialog,'' @ [CHR 0x0A] @
     ''then rebuild the catalog.'' @ [CHR 0x0A]"

text \<open>
  The second loop, over \<^verbatim>\<open>enumerate(authors)\<close>, with its variables
  \<^verbatim>\<open>current_author\<close>, \<^verbatim>\<open>books_by_current_author\<close>, \<^verbatim>\<open>multiple_authors\<close> and
  \<^verbatim>\<open>unique_authors\<close>. \<open>n\<close> is \<^verbatim>\<open>len(authors)\<close>, and \<open>T\<close> the function \<^verbatim>\<open>icu_title\<close>,
  which the source file uses without defining it.
\<close>

fun unique_loop ::
  "(string \<Rightarrow> string) \<Rightarrow> nat \<Rightarrow> nat \<Rightarrow> string \<times> string \<Rightarrow> nat \<Rightarrow> bool \<Rightarrow>
   (string \<times> string \<times> nat) list \<Rightarrow> (string \<times> string) list \<Rightarrow>
   (string \<times> string) \<times> nat \<times> bool \<times> (string \<times> string \<times> nat) list" where
  "unique_loop T n i cur cnt mult uniq [] = (cur, cnt, mult, uniq)"
| "unique_loop T n i cur cnt mult uniq (a # as) =
     (if a \<noteq> cur then
        unique_loop T n (Suc i) a 1 True (uniq @ [(fst cur, T (snd cur), cnt)]) as
      else if i = 0 \<and> n = 1 then
        unique_loop T n (Suc i) cur cnt mult (uniq @ [(fst cur, T (snd cur), cnt)]) as
      else unique_loop T n (Suc i) cur (cnt + 1) mult uniq as)"

text \<open>The whole second half: the loop, then the \<^verbatim>\<open>else\<close> clause of the \<^verbatim>\<open>for\<close>.\<close>

definition unique_authors :: "(string \<Rightarrow> string) \<Rightarrow> (string \<times> string) list \<Rightarrow> (string \<times> string \<times> nat) list" where
  "unique_authors T authors =
     (case unique_loop T (length authors) 0 (hd authors) 0 False [] authors of
        (cur, cnt, mult, uniq) \<Rightarrow>
          (if (cur = last authors \<and> 1 < length authors) \<or> \<not> mult
           then uniq @ [(fst cur, T (snd cur), cnt)] else uniq))"

text \<open>
  The builder's state: the attributes of \<^verbatim>\<open>CatalogBuilder\<close> that the modelled methods
  read and write, the files written below the catalog directory (\<open>written\<close>, by
  their paths relative to it), and the \<^verbatim>\<open>item\<close>s of the manifest (id and href) and
  the \<^verbatim>\<open>itemref\<close>s of the spine of the OPF file.
\<close>

record builder =
  opts :: opts
  error :: "string list"
  booksByTitle :: "book list option"
  booksByTitle_noSeriesPrefix :: "book list"
  booksByAuthor :: "book list"
  booksBySeries :: "db_record list"
  booksByDateRange :: "book list"
  booksByMonth :: "book list"
  authors :: "(string \<times> string \<times> nat) list"
  genres :: "genre list"
  thumbs :: "string list"
  htmlFileList_1 :: "string list"
  htmlFileList_2 :: "string list"
  playOrder :: nat
  ncxSoup :: "ncx option"
  written :: "string list"
  manifest :: "(string \<times> string) list"
  spine :: "string list"

definition fetchBooksByAuthor ::
  "(string \<Rightarrow> string) \<Rightarrow> (string \<Rightarrow> string) \<Rightarrow> builder \<Rightarrow> py_error + (bool \<times> builder)" where
  "fetchBooksByAuthor tsort T self =
     (case booksByTitle self of
        None \<Rightarrow> Inl TypeError
      | Some titles \<Rightarrow>
     (let by_author = sort_key (booksByAuthorSorter_author tsort) titles;
          pairs = map (\<lambda>r. (author r, author_sort r)) by_author
      in if pairs = [] then Inl IndexError
         else case mismatch_loop 0 (hd pairs) pairs of
           Some (a, current_author) \<Rightarrow>
             Inr (False, self\<lparr>booksByAuthor := by_author,
                    error := error self @ [''Metadata error'', author_sort_error_msg a current_author]\<rparr>)
         | None \<Rightarrow>
             (let by_sort = sort_key (booksByAuthorSorter_author_sort tsort) by_author;
                  pairs2 = map (\<lambda>r. (author r, capitalize (author_sort r))) by_sort
              in Inr (True, self\<lparr>booksByAuthor := by_sort, authors := unique_authors T pairs2\<rparr>))))"

text \<open>A book with only the fields that matter to the author grouping filled in.\<close>

definition mk_book :: "string \<Rightarrow> string \<Rightarrow> string \<Rightarrow> book" where
  "mk_book a s t =
     \<lparr>book_id = 1, uuid = [], title = t, title_sort = t, author = a, author_sort = s,
      series = None, series_index = 0,
      timestamp = \<lparr>year = 2011, month = 1, day = 1, hour = 0, minute = 0, second = 0, microsecond = 0\<rparr>,
      tags = [], cover = None\<rparr>"

text \<open>The state \<^verbatim>\<open>__init__\<close> sets up, here with the list of books already fetched.\<close>

definition new_builder :: "opts \<Rightarrow> book list option \<Rightarrow> builder" where
  "new_builder os bs =
     \<lparr>opts = os, error = [], booksByTitle = bs, booksByTitle_noSeriesPrefix = [],
      booksByAuthor = [], booksBySeries = [], booksByDateRange = [], booksByMonth = [],
      authors = [], genres = [], thumbs = [], htmlFileList_1 = [], htmlFileList_2 = [],
      playOrder = 1, ncxSoup = None, written = [], manifest = [], spine = []\<rparr>"

definition all_sections :: opts where
  "all_sections =
     \<lparr>generate_authors = True, generate_titles = True, generate_series = True,
      generate_genres = True, generate_recently_added = True, generate_descriptions = True,
      sort_descriptions_by_author = False,
      section_list = [''Authors'', ''Titles'', ''Series'', ''Genres'', ''Recently Added'', ''Descriptions''],
      exclude_tags = ''~,Catalog''\<rparr>"

section \<open>\<^verbatim>\<open>fetchBooksByTitle\<close>\<close>

text \<open>\<^verbatim>\<open>re.sub('&amp;', '&', s)\<close>\<close>

fun unescape_amp :: "string \<Rightarrow> string" where
  "unescape_amp (a # b # c # d # e # cs) =
     (if [a, b, c, d, e] = ''&amp;'' then CHR ''&'' # unescape_amp cs
      else a # unescape_amp (b # c # d # e # cs))"
| "unescape_amp cs = cs"

text \<open>The dictionary \<^verbatim>\<open>this_title\<close> made of a database record.\<close>

definition this_title :: "env \<Rightarrow> db_record \<Rightarrow> book" where
  "this_title E r =
     (let t = convertHTMLEntities E (r_title r);
          s = (case r_series r of None \<Rightarrow> None | Some x \<Rightarrow> if x = [] then None else Some x);
          a = (if r_authors r \<noteq> [] then join '' &amp; '' (r_authors r) else ''Unknown'')
      in \<lparr>book_id = r_id r, uuid = r_uuid r, title = t,
           title_sort = generateSortTitle (title_sort_fn E) t,
           author = a,
           author_sort = (case r_author_sort r of
                            None \<Rightarrow> author_to_author_sort a
                          | Some x \<Rightarrow> if \<exists>c \<in> set x. \<not> is_space c then x
                                      else author_to_author_sort a),
           series = s,
           series_index = (if s = None then 0 else r_series_index r),
           timestamp = r_timestamp r,
           tags = filter (\<lambda>tag. \<not> exclude_genre E tag \<and> Some tag \<noteq> read_tag E)
                    (map (convertHTMLEntities E) (r_tags r)),
           cover = (case r_cover r of None \<Rightarrow> None
                    | Some p \<Rightarrow> if p = [] then None else Some (unescape_amp p))\<rparr>)"

definition fetchBooksByTitle :: "env \<Rightarrow> builder \<Rightarrow> bool \<times> builder" where
  "fetchBooksByTitle E self =
     (let titles = map (this_title E) (search_titles E)
      in if titles \<noteq> [] then
           (True, self\<lparr>booksByTitle :=
              Some (sort_key (\<lambda>x. (upper (title_sort x), upper (title_sort x))) titles)\<rparr>)
         else
           (False, self\<lparr>error := error self @
              [''No books available to include in catalog'',
               ''No books found to catalog.'' @ [CHR 0x0A] @ ''Check '' @ [CHR 0x27] @
               ''Excluded books'' @ [CHR 0x27] @ '' criteria in E-book options.'' @ [CHR 0x0A]]\<rparr>))"

section \<open>The HTML sections\<close>

text \<open>
  Of each HTML writer the model keeps what the other documents depend on: the file it
  writes, the list it registers the file in, and the book lists it leaves in the
  builder. \<^verbatim>\<open>book['title_sort'][0]\<close> raises \<^verbatim>\<open>IndexError\<close> on an empty sort title.
\<close>

definition the_books :: "builder \<Rightarrow> book list" where
  "the_books self = (case booksByTitle self of None \<Rightarrow> [] | Some bs \<Rightarrow> bs)"

definition generateThumbnails :: "env \<Rightarrow> builder \<Rightarrow> builder" where
  "generateThumbnails E self =
     self\<lparr>thumbs := ''thumbnail_default.jpg'' #
              map (\<lambda>t. ''thumbnail_'' @ show_nat (book_id t) @ ''.jpg'')
                (filter (cover_ok E) (the_books self))\<rparr>"

definition generateHTMLDescriptions :: "builder \<Rightarrow> builder" where
  "generateHTMLDescriptions self =
     self\<lparr>written := written self @
        map (\<lambda>t. ''content/book_'' @ show_nat (book_id t) @ ''.html'') (the_books self)\<rparr>"

definition generateHTMLByAuthor :: "builder \<Rightarrow> builder" where
  "generateHTMLByAuthor self =
     self\<lparr>written := written self @ [''content/ByAlphaAuthor.html''],
          htmlFileList_1 := htmlFileList_1 self @ [''content/ByAlphaAuthor.html'']\<rparr>"

definition generateHTMLByTitle :: "builder \<Rightarrow> py_error + builder" where
  "generateHTMLByTitle self =
     (let nspt = sort_key (\<lambda>x. (upper (title_sort x), upper (title_sort x))) (the_books self)
      in if \<exists>b \<in> set nspt. title_sort b = [] then Inl IndexError
         else Inr (self\<lparr>booksByTitle_noSeriesPrefix := nspt,
                     written := written self @ [''content/ByAlphaTitle.html''],
                     htmlFileList_1 := htmlFileList_1 self @ [''content/ByAlphaTitle.html'']\<rparr>))"

definition generateHTMLBySeries :: "env \<Rightarrow> builder \<Rightarrow> builder" where
  "generateHTMLBySeries E self =
     (if search_series E = [] then
        self\<lparr>booksBySeries := [], opts := (opts self)\<lparr>generate_series := False\<rparr>\<rparr>
      else
        self\<lparr>booksBySeries := search_series E,
             written := written self @ [''content/BySeries.html''],
             htmlFileList_1 := htmlFileList_1 self @ [''content/BySeries.html'']\<rparr>)"

definition generateHTMLByDateAdded :: "builder \<Rightarrow> builder" where
  "generateHTMLByDateAdded self =
     self\<lparr>booksByDateRange := sorted_rev (\<lambda>x. (dt_key (timestamp x), dt_key (timestamp x))) (the_books self),
          booksByMonth := sorted_rev (\<lambda>x. (dt_key (timestamp x), dt_key (timestamp x))) (the_books self),
          written := written self @ [''content/ByDateAdded.html''],
          htmlFileList_2 := htmlFileList_2 self @ [''content/ByDateAdded.html'']\<rparr>"

subsection \<open>Genres\<close>

text \<open>\<^verbatim>\<open>re.sub('\W', '', tag).lower()\<close>\<close>

definition normalize_tag :: "string \<Rightarrow> string" where
  "normalize_tag tag = lower (filter (\<lambda>c. is_alpha c \<or> is_digit c \<or> c = CHR ''_'') tag)"

text \<open>\<^verbatim>\<open>s.split(',')\<close>\<close>

fun split_on :: "char \<Rightarrow> string \<Rightarrow> string list" where
  "split_on sep [] = [[]]"
| "split_on sep (c # cs) =
     (if c = sep then [] # split_on sep cs
      else (case split_on sep cs of [] \<Rightarrow> [[c]] | w # ws \<Rightarrow> (c # w) # ws))"

definition getMarkerTags :: "opts \<Rightarrow> string list" where
  "getMarkerTags os = split_on (CHR '','') (exclude_tags os)"

text \<open>
  \<^verbatim>\<open>filterDbTags\<close>: the friendly tags that are kept, in the order of the database.
  The dictionary it returns maps each of them to \<^const>\<open>normalize_tag\<close> of it.
\<close>

definition filterDbTags :: "env \<Rightarrow> opts \<Rightarrow> string list \<Rightarrow> string list" where
  "filterDbTags E os ts =
     filter (\<lambda>tag. \<not> (take 1 tag \<in> set (getMarkerTags os) \<or> exclude_genre E tag \<or> tag = '' '')) ts"

text \<open>
  The loop of \<^verbatim>\<open>generateHTMLByTags\<close> that fills \<^verbatim>\<open>genre_list\<close>. Each dictionary in that
  list has one key, the normalized tag, so the list is modelled by pairs of a tag
  and its books. A book joins an existing genre unless a book of its title is there.
\<close>

definition add_to_genre_list ::
  "string \<Rightarrow> book \<Rightarrow> (string \<times> book list) list \<Rightarrow> (string \<times> book list) list" where
  "add_to_genre_list normalized_tag this_book genre_list =
     (if normalized_tag \<in> set (map fst genre_list) then
        map (\<lambda>(key, books).
               if key = normalized_tag \<and> title this_book \<notin> set (map title books)
               then (key, books @ [this_book]) else (key, books)) genre_list
      else genre_list @ [(normalized_tag, [this_book])])"

fun genre_books_loop ::
  "string \<Rightarrow> book list \<Rightarrow> (string \<times> book list) list \<Rightarrow> (string \<times> book list) list" where
  "genre_books_loop friendly_tag [] genre_list = genre_list"
| "genre_books_loop friendly_tag (b # bs) genre_list =
     genre_books_loop friendly_tag bs
       (if friendly_tag \<in> set (tags b)
        then add_to_genre_list (normalize_tag friendly_tag)
               (b\<lparr>author_sort := capitalize (author_sort b)\<rparr>) genre_list
        else genre_list)"

fun genre_tags_loop ::
  "string list \<Rightarrow> book list \<Rightarrow> (string \<times> book list) list \<Rightarrow> (string \<times> book list) list" where
  "genre_tags_loop [] bs genre_list = genre_list"
| "genre_tags_loop (friendly_tag # ts) bs genre_list =
     genre_tags_loop ts bs (genre_books_loop friendly_tag bs genre_list)"

definition generateHTMLByTags :: "env \<Rightarrow> builder \<Rightarrow> builder" where
  "generateHTMLByTags E self =
     (let genre_tags_dict = filterDbTags E (opts self) (all_tags E);
          genre_list = genre_tags_loop (sort (remdups genre_tags_dict)) (booksByAuthor self) []
      in self\<lparr>written := written self @
                 map (\<lambda>(g, books). ''content/Genre_'' @ g @ ''.html'') genre_list,
              genres := map (\<lambda>(g, books).
                 \<lparr>g_tag = g, g_file = ''content/Genre_'' @ g @ ''.html'', g_books = books\<rparr>) genre_list\<rparr>)"

section \<open>The OPF file\<close>

text \<open>\<^verbatim>\<open>file[file.find('/') + 1 : file.find('.')].lower()\<close>, the id of an HTML file.\<close>

definition find_char :: "char \<Rightarrow> string \<Rightarrow> int" where
  "find_char c s = (if c \<in> set s then int (length (takeWhile (\<lambda>x. x \<noteq> c) s)) else - 1)"

definition slice :: "string \<Rightarrow> int \<Rightarrow> int \<Rightarrow> string" where
  "slice s a b =
     (let n = int (length s);
          a' = (if a < 0 then max 0 (n + a) else min a n);
          b' = (if b < 0 then max 0 (n + b) else min b n)
      in take (nat (b' - a')) (drop (nat a') s))"

definition opf_id :: "string \<Rightarrow> string" where
  "opf_id file = lower (slice file (find_char (CHR ''/'') file + 1) (find_char (CHR ''.'') file))"

text \<open>
  \<^verbatim>\<open>generateOPF\<close>. The output file's base name is \<^verbatim>\<open>opts.basename\<close>, here \<open>basename\<close>.
\<close>

definition generateOPF :: "string \<Rightarrow> builder \<Rightarrow> builder" where
  "generateOPF basename self =
     (let sort_descriptions_by =
            (if generate_descriptions (opts self) then
               (if sort_descriptions_by_author (opts self) then booksByAuthor self
                else the_books self)
             else []);
          html = htmlFileList_1 self @ map g_file (genres self) @ htmlFileList_2 self
      in self\<lparr>manifest :=
                 [(''ncx'', basename @ ''.ncx''), (''stylesheet'', ''content/stylesheet.css''),
                  (''mastheadimage-image'', ''images/mastheadImage.gif'')] @
                 (if generate_descriptions (opts self) then
                    map (\<lambda>thumb. (slice thumb 0 (find_char (CHR ''.'') thumb) @ ''-image'',
                                  ''images/'' @ thumb)) (thumbs self)
                  else []) @
                 map (\<lambda>file. (opf_id file, file)) html @
                 map (\<lambda>b. (''book'' @ show_nat (book_id b),
                           ''content/book_'' @ show_nat (book_id b) @ ''.html'')) sort_descriptions_by,
              spine :=
                 map opf_id html @
                 map (\<lambda>b. ''book'' @ show_nat (book_id b)) sort_descriptions_by,
              written := written self @ [basename @ ''.opf'']\<rparr>)"

section \<open>The NCX file\<close>

definition sort_descriptions_by :: "builder \<Rightarrow> book list" where
  "sort_descriptions_by self =
     (if sort_descriptions_by_author (opts self) then booksByAuthor self else the_books self)"

definition generateNCXHeader :: "builder \<Rightarrow> py_error + builder" where
  "generateNCXHeader self =
     (let os = opts self;
          src = (if generate_authors os then Inr ''content/ByAlphaAuthor.html''
                 else if generate_titles os then Inr ''content/ByAlphaTitle.html''
                 else if generate_series os then Inr ''content/BySeries.html''
                 else if generate_genres os then Inr ''content/ByGenres.html''
                 else if generate_recently_added os then Inr ''content/ByDateAdded.html''
                 else (case sort_descriptions_by self of
                         [] \<Rightarrow> Inl IndexError
                       | b # _ \<Rightarrow> Inr (''content/book_'' @ show_nat (book_id b) @ ''.html'')))
      in case src of
           Inl err \<Rightarrow> Inl err
         | Inr s \<Rightarrow>
             Inr (self\<lparr>ncxSoup := Some \<lparr>n_playOrder = Some (playOrder self), n_src = s,
                                         n_sections = []\<rparr>,
                       playOrder := playOrder self + 1\<rparr>))"

text \<open>\<^verbatim>\<open>body.insert(btc, navPointTag)\<close>: the section becomes the periodical's last child.\<close>

definition add_section :: "nav_section \<Rightarrow> builder \<Rightarrow> py_error + builder" where
  "add_section sec self =
     (case ncxSoup self of
        None \<Rightarrow> Inl TypeError
      | Some n \<Rightarrow> Inr (self\<lparr>ncxSoup := Some (n\<lparr>n_sections := n_sections n @ [sec]\<rparr>)\<rparr>))"

text \<open>
  The loops that find the start of each letter. \<open>keys\<close> are the strings whose first
  character decides the letter; the result is \<^verbatim>\<open>title_letters\<close>, one entry for
  each run of equal letters.
\<close>

fun letters_loop :: "string \<Rightarrow> string list \<Rightarrow> string list \<Rightarrow> py_error + string list" where
  "letters_loop current_letter [] title_letters = Inr title_letters"
| "letters_loop current_letter (k # ks) title_letters =
     (case k of
        [] \<Rightarrow> Inl IndexError
      | c # _ \<Rightarrow>
          if letter_or_symbol c \<noteq> current_letter
          then letters_loop (letter_or_symbol c) ks (title_letters @ [letter_or_symbol c])
          else letters_loop current_letter ks title_letters)"

definition title_letters :: "string list \<Rightarrow> py_error + string list" where
  "title_letters keys =
     (case keys of
        [] \<Rightarrow> Inl IndexError
      | [] # _ \<Rightarrow> Inl IndexError
      | (c # _) # _ \<Rightarrow> letters_loop (letter_or_symbol c) keys [letter_or_symbol c])"

text \<open>
  The article loop as \<^verbatim>\<open>generateNCXDescriptions\<close> and \<^verbatim>\<open>generateNCXByGenre\<close> have it:
  \<^verbatim>\<open>navPointVolumeTag['playOrder'] = self.playOrder\<close>, on the article.
\<close>

fun articles_loop ::
  "(string \<times> string) list \<Rightarrow> nav_section \<Rightarrow> nat \<Rightarrow> nav_section \<times> nat" where
  "articles_loop [] navPointTag po = (navPointTag, po)"
| "articles_loop ((i, src) # xs) navPointTag po =
     articles_loop xs
       (navPointTag\<lparr>s_articles := s_articles navPointTag @
                       [\<lparr>a_id = i, a_playOrder = Some po, a_src = src\<rparr>]\<rparr>)
       (po + 1)"

text \<open>
  The article loop as \<^verbatim>\<open>generateNCXByTitle\<close>, \<^verbatim>\<open>generateNCXByAuthor\<close>,
  \<^verbatim>\<open>generateNCXBySeries\<close> and \<^verbatim>\<open>generateNCXByDateAdded\<close> have it:
  \<^verbatim>\<open>navPointTag['playOrder'] = self.playOrder\<close>, where \<^verbatim>\<open>navPointTag\<close> is the section.
\<close>

fun articles_loop_section ::
  "(string \<times> string) list \<Rightarrow> nav_section \<Rightarrow> nat \<Rightarrow> nav_section \<times> nat" where
  "articles_loop_section [] navPointTag po = (navPointTag, po)"
| "articles_loop_section ((i, src) # xs) navPointTag po =
     articles_loop_section xs
       (navPointTag\<lparr>s_playOrder := Some po,
                    s_articles := s_articles navPointTag @
                       [\<lparr>a_id = i, a_playOrder = None, a_src = src\<rparr>]\<rparr>)
       (po + 1)"

text \<open>A section with its own \<^verbatim>\<open>playOrder\<close>, then its articles, then its insertion.\<close>

definition ncx_section ::
  "bool \<Rightarrow> string \<Rightarrow> string \<Rightarrow> (string \<times> string) list \<Rightarrow> builder \<Rightarrow> py_error + builder" where
  "ncx_section on_article sid src arts self =
     (let navPointTag = \<lparr>s_id = sid, s_playOrder = Some (playOrder self), s_src = src,
                          s_articles = []\<rparr>;
          (sec, po) = (if on_article then articles_loop arts navPointTag (playOrder self + 1)
                       else articles_loop_section arts navPointTag (playOrder self + 1))
      in add_section sec (self\<lparr>playOrder := po\<rparr>))"

definition generateNCXByTitle :: "builder \<Rightarrow> py_error + builder" where
  "generateNCXByTitle self =
     (case title_letters (map title_sort (booksByTitle_noSeriesPrefix self)) of
        Inl err \<Rightarrow> Inl err
      | Inr letters \<Rightarrow>
          ncx_section False ''byalphatitle-ID'' ''content/ByAlphaTitle.html#section_start''
            (map (\<lambda>l. (upper l @ ''Titles-ID'', ''content/ByAlphaTitle.html#'' @ l)) letters) self)"

definition generateNCXByAuthor :: "builder \<Rightarrow> py_error + builder" where
  "generateNCXByAuthor self =
     (case title_letters (map (\<lambda>(friendly, sort, count). sort) (authors self)) of
        Inl err \<Rightarrow> Inl err
      | Inr letters \<Rightarrow>
          ncx_section False ''authors-ID'' ''content/ByAlphaAuthor.html#section_start''
            (map (\<lambda>l. (l @ ''authors-ID'', ''content/ByAlphaAuthor.html#'' @ l @ ''authors'')) letters)
            self)"

definition generateNCXBySeries :: "env \<Rightarrow> builder \<Rightarrow> py_error + builder" where
  "generateNCXBySeries E self =
     (if \<exists>r \<in> set (booksBySeries self). r_series r = None then Inl TypeError
      else case title_letters
                  (map (\<lambda>r. generateSortTitle (title_sort_fn E) (the (r_series r))) (booksBySeries self)) of
        Inl err \<Rightarrow> Inl err
      | Inr letters \<Rightarrow>
          ncx_section False ''byseries-ID'' ''content/BySeries.html#section_start''
            (map (\<lambda>l. (upper l @ ''Series-ID'', ''content/BySeries.html#'' @ l @ ''_series'')) letters)
            self)"

text \<open>\<^verbatim>\<open>DATE_RANGE = [30]\<close>\<close>

definition DATE_RANGE :: "int list" where
  "DATE_RANGE = [30]"

text \<open>The start of the day of a date and time.\<close>

definition midnight :: "datetime \<Rightarrow> datetime" where
  "midnight d = d\<lparr>hour := 0, minute := 0, second := 0, microsecond := 0\<rparr>"

text \<open>The months of \<^verbatim>\<open>booksByMonth\<close>, one entry for each run of books of one month.\<close>

fun months_loop :: "int \<times> int \<Rightarrow> book list \<Rightarrow> (int \<times> int) list \<Rightarrow> (int \<times> int) list" where
  "months_loop current_date [] ms = ms @ [current_date]"
| "months_loop current_date (b # bs) ms =
     (if month (timestamp b) \<noteq> snd current_date \<or> year (timestamp b) \<noteq> fst current_date
      then months_loop (year (timestamp b), month (timestamp b)) bs (ms @ [current_date])
      else months_loop current_date bs ms)"

definition generateNCXByDateAdded :: "env \<Rightarrow> builder \<Rightarrow> py_error + builder" where
  "generateNCXByDateAdded E self =
     (case booksByMonth self of
        [] \<Rightarrow> Inl IndexError
      | first # _ \<Rightarrow>
          (let current_titles_list =
                 takeWhile (\<lambda>b. delta_days (midnight (now E)) (midnight (timestamp b)) \<le> hd DATE_RANGE)
                   (booksByDateRange self);
               ranges = (if current_titles_list \<noteq> []
                         then [(''Last30days-ID'', ''content/ByDateAdded.html#bda_Last30days'')] else []);
               months = months_loop (year (timestamp first), month (timestamp first))
                          (booksByMonth self) []
           in ncx_section False ''recentlyadded-ID'' ''content/ByDateAdded.html#section_start''
                (ranges @
                 map (\<lambda>(y, m). (''bda_'' @ show_int y @ ''-'' @ show_int m @ ''-ID'',
                                ''content/ByDateAdded.html#bda_'' @ show_int y @ ''-'' @ show_int m))
                   months)
                self))"

definition generateNCXByGenre :: "builder \<Rightarrow> py_error + builder" where
  "generateNCXByGenre self =
     (case genres self of
        [] \<Rightarrow> Inr self
      | g # _ \<Rightarrow>
          ncx_section True ''genres-ID'' (''content/Genre_'' @ g_tag g @ ''.html#section_start'')
            (map (\<lambda>x. (''genre-'' @ g_tag x @ ''-ID'',
                       ''content/Genre_'' @ g_tag x @ ''.html#Genre_'' @ g_tag x)) (genres self))
            self)"

definition generateNCXDescriptions :: "builder \<Rightarrow> py_error + builder" where
  "generateNCXDescriptions self =
     (case the_books self of
        [] \<Rightarrow> Inl IndexError
      | first # _ \<Rightarrow>
          ncx_section True ''bytitle-ID'' (''content/book_'' @ show_nat (book_id first) @ ''.html'')
            (map (\<lambda>b. (''book'' @ show_nat (book_id b) @ ''ID'',
                       ''content/book_'' @ show_nat (book_id b) @ ''.html#book'' @ show_nat (book_id b)))
               (sort_descriptions_by self))
            self)"

definition writeNCX :: "string \<Rightarrow> builder \<Rightarrow> builder" where
  "writeNCX basename self = self\<lparr>written := written self @ [basename @ ''.ncx'']\<rparr>"

section \<open>\<^verbatim>\<open>buildSources\<close>\<close>

text \<open>
  Sequencing of steps that may raise, and a step taken only under a condition. The
  model is of a build with no Kindle connected, so that \<^verbatim>\<open>generateRecentlyRead\<close> is
  false, \<^verbatim>\<open>fetchBookmarks\<close> finds nothing and the Recently Read section is not made.
\<close>

definition and_then :: "py_error + 'a \<Rightarrow> ('a \<Rightarrow> py_error + 'b) \<Rightarrow> py_error + 'b" where
  "and_then r f = (case r of Inl err \<Rightarrow> Inl err | Inr x \<Rightarrow> f x)"

definition when_opt :: "(opts \<Rightarrow> bool) \<Rightarrow> (builder \<Rightarrow> py_error + builder) \<Rightarrow> builder \<Rightarrow> py_error + builder" where
  "when_opt flag f self = (if flag (opts self) then f self else Inr self)"

text \<open>The statements of \<^verbatim>\<open>buildSources\<close> from \<^verbatim>\<open>generateOPF\<close> to the end.\<close>

definition build_opf_ncx :: "env \<Rightarrow> string \<Rightarrow> builder \<Rightarrow> py_error + (bool \<times> builder)" where
  "build_opf_ncx E basename self =
     and_then (generateNCXHeader (generateOPF basename self)) (\<lambda>self.
     and_then (when_opt generate_authors generateNCXByAuthor self) (\<lambda>self.
     and_then (when_opt generate_titles generateNCXByTitle self) (\<lambda>self.
     and_then (when_opt generate_series (generateNCXBySeries E) self) (\<lambda>self.
     and_then (when_opt generate_genres generateNCXByGenre self) (\<lambda>self.
     and_then (when_opt generate_recently_added (generateNCXByDateAdded E) self) (\<lambda>self.
     and_then (when_opt generate_descriptions generateNCXDescriptions self) (\<lambda>self.
     Inr (True, writeNCX basename self))))))))"

text \<open>The statements from \<^verbatim>\<open>fetchBookmarks\<close> to the end.\<close>

definition build_sections :: "env \<Rightarrow> string \<Rightarrow> builder \<Rightarrow> py_error + (bool \<times> builder)" where
  "build_sections E basename self =
     and_then (when_opt generate_descriptions
                 (\<lambda>self. Inr (generateHTMLDescriptions (generateThumbnails E self))) self) (\<lambda>self.
     and_then (when_opt generate_authors (\<lambda>self. Inr (generateHTMLByAuthor self)) self) (\<lambda>self.
     and_then (when_opt generate_titles generateHTMLByTitle self) (\<lambda>self.
     and_then (when_opt generate_series (\<lambda>self. Inr (generateHTMLBySeries E self)) self) (\<lambda>self.
     and_then (when_opt generate_genres (\<lambda>self. Inr (generateHTMLByTags E self)) self) (\<lambda>self.
     if generate_genres (opts self) \<and> section_list (opts self) = [''Genres''] \<and> genres self = []
     then Inr (False, self\<lparr>error := error self @
                 [''No books available to catalog'',
                  ''No Genres found to catalog.'' @ [CHR 0x0A] @ ''Check '' @ [CHR 0x27] @
                  ''Excluded genres'' @ [CHR 0x27] @ [CHR 0x0A] @ ''in E-book options.'' @ [CHR 0x0A]]\<rparr>)
     else
     and_then (when_opt generate_recently_added (\<lambda>self. Inr (generateHTMLByDateAdded self)) self)
       (build_opf_ncx E basename))))))"

definition buildSources :: "env \<Rightarrow> string \<Rightarrow> builder \<Rightarrow> py_error + (bool \<times> builder)" where
  "buildSources E basename self =
     (case (if booksByTitle self = None then fetchBooksByTitle E self else (True, self)) of
        (False, self) \<Rightarrow> Inr (False, self)
      | (True, self) \<Rightarrow>
          and_then (fetchBooksByAuthor (title_sort_fn E) (icu_title E) self) (\<lambda>(ok, self).
            if \<not> ok then Inr (False, self) else build_sections E basename self))"

text \<open>A database record with a title, an author, and tags.\<close>

definition mk_record :: "nat \<Rightarrow> string \<Rightarrow> string \<Rightarrow> string list \<Rightarrow> db_record" where
  "mk_record i t a ts =
     \<lparr>r_id = i, r_uuid = ''u'' @ show_nat i, r_title = t, r_series = None, r_series_index = 0,
      r_authors = [a], r_author_sort = None,
      r_timestamp = \<lparr>year = 2011, month = 1, day = 1, hour = 0, minute = 0, second = 0, microsecond = 0\<rparr>,
      r_tags = ts, r_cover = None\<rparr>"

text \<open>An environment with a database of the given records and tags, built on 1 February 2011.\<close>

definition mk_env :: "db_record list \<Rightarrow> string list \<Rightarrow> env" where
  "mk_env rs ts =
     \<lparr>title_sort_fn = (\<lambda>t. t), icu_title = (\<lambda>t. t), convertHTMLEntities = (\<lambda>t. t),
      exclude_genre = (\<lambda>t. False), read_tag = None, search_titles = rs,
      search_series = filter (\<lambda>r. r_series r \<noteq> None) rs, all_tags = ts, cover_ok = (\<lambda>b. False),
      now = \<lparr>year = 2011, month = 2, day = 1, hour = 12, minute = 0, second = 0, microsecond = 0\<rparr>\<rparr>"

definition only_titles :: opts where
  "only_titles =
     \<lparr>generate_authors = False, generate_titles = True, generate_series = False,
      generate_genres = False, generate_recently_added = False, generate_descriptions = False,
      sort_descriptions_by_author = False, section_list = [''Titles''], exclude_tags = ''~,Catalog''\<rparr>"

definition only_genres :: opts where
  "only_genres =
     \<lparr>generate_authors = False, generate_titles = False, generate_series = False,
      generate_genres = True, generate_recently_added = False, generate_descriptions = False,
      sort_descriptions_by_author = False, section_list = [''Genres''], exclude_tags = ''~,Catalog''\<rparr>"


section \<open>The Recently Added section: \<^verbatim>\<open>generateHTMLByDateAdded\<close>\<close>

text \<open>\<^verbatim>\<open>nowf().replace(hour=23, minute=59, second=59)\<close>\<close>

definition today_time :: "datetime \<Rightarrow> datetime" where
  "today_time n = n\<lparr>hour := 23, minute := 59, second := 59\<rparr>"

text \<open>
  The loop over \<^verbatim>\<open>booksByDateRange\<close> for one date range, with its \<^verbatim>\<open>break\<close>; the
  result is \<^verbatim>\<open>date_range_list\<close>.
\<close>

fun date_range_loop :: "datetime \<Rightarrow> int \<Rightarrow> book list \<Rightarrow> book list \<Rightarrow> book list" where
  "date_range_loop today date_range_limit [] date_range_list = date_range_list"
| "date_range_loop today date_range_limit (b # bs) date_range_list =
     (if delta_days today (timestamp b) \<le> date_range_limit
      then date_range_loop today date_range_limit bs (date_range_list @ [b])
      else date_range_list)"

text \<open>
  The loop over \<^verbatim>\<open>booksByMonth\<close>. \<^verbatim>\<open>add_books_to_HTML_by_month\<close> writes a month heading
  and the month's books when the list it is given is not empty; \<open>out\<close> collects these
  pairs of a year and month and the books under it.
\<close>

definition add_books_to_HTML_by_month ::
  "int \<times> int \<Rightarrow> book list \<Rightarrow> ((int \<times> int) \<times> book list) list \<Rightarrow> ((int \<times> int) \<times> book list) list" where
  "add_books_to_HTML_by_month current_date this_months_list out =
     (if this_months_list \<noteq> [] then out @ [(current_date, this_months_list)] else out)"

fun by_month_loop ::
  "int \<times> int \<Rightarrow> book list \<Rightarrow> book list \<Rightarrow> ((int \<times> int) \<times> book list) list \<Rightarrow>
   ((int \<times> int) \<times> book list) list" where
  "by_month_loop current_date this_months_list [] out =
     add_books_to_HTML_by_month current_date this_months_list out"
| "by_month_loop current_date this_months_list (b # bs) out =
     (if month (timestamp b) \<noteq> snd current_date \<or> year (timestamp b) \<noteq> fst current_date
      then by_month_loop (year (timestamp b), month (timestamp b)) [b] bs
             (add_books_to_HTML_by_month current_date this_months_list out)
      else by_month_loop current_date (this_months_list @ [b]) bs out)"

text \<open>
  The content of the Recently Added page for the books of \<^verbatim>\<open>booksByTitle\<close> and the
  clock reading \<open>n\<close>: the books under the heading \<^verbatim>\<open>Last 30 days\<close>, and the month
  headings with their books. After the loop of a date range, \<^verbatim>\<open>date_range_list = [book]\<close>
  reads the loop variable, which is unbound when there is no book at all.
  \<^verbatim>\<open>current_date\<close> starts as \<^verbatim>\<open>date.fromordinal(1)\<close>, January of the year 1.
\<close>

definition recently_added ::
  "datetime \<Rightarrow> book list \<Rightarrow> py_error + (book list \<times> ((int \<times> int) \<times> book list) list)" where
  "recently_added n books =
     (let booksByDateRange = sorted_rev (\<lambda>x. (dt_key (timestamp x), dt_key (timestamp x))) books;
          date_range_list = date_range_loop (today_time n) (hd DATE_RANGE) booksByDateRange []
      in if booksByDateRange = [] then Inl NameError
         else
           let booksByMonth = sorted_rev (\<lambda>x. (dt_key (timestamp x), dt_key (timestamp x))) books
           in Inr (date_range_list, by_month_loop (1, 1) [] booksByMonth []))"

text \<open>The dates and times that Python's \<^verbatim>\<open>datetime\<close> can hold.\<close>

definition days_in_month :: "int \<Rightarrow> int \<Rightarrow> int" where
  "days_in_month y m =
     [31, if is_leap y then 29 else 28, 31, 30, 31, 30, 31, 31, 30, 31, 30, 31] ! nat (m - 1)"

definition valid_datetime :: "datetime \<Rightarrow> bool" where
  "valid_datetime d =
     (1 \<le> month d \<and> month d \<le> 12 \<and> 1 \<le> day d \<and> day d \<le> days_in_month (year d) (month d) \<and>
      0 \<le> hour d \<and> hour d < 24 \<and> 0 \<le> minute d \<and> minute d < 60 \<and>
      0 \<le> second d \<and> second d < 60 \<and> 0 \<le> microsecond d \<and> microsecond d < 1000000)"

text \<open>A book added at the given date and time.\<close>

definition book_at :: "string \<Rightarrow> int \<Rightarrow> int \<Rightarrow> int \<Rightarrow> int \<Rightarrow> book" where
  "book_at t y m d h =
     (mk_book ''Jane Doe'' ''Doe, Jane'' t)
       \<lparr>timestamp := \<lparr>year = y, month = m, day = d, hour = h, minute = 0, second = 0, microsecond = 0\<rparr>\<rparr>"


section \<open>Option validation in \<^verbatim>\<open>EPUB_MOBI.run\<close>: the thumbnail width\<close>

text \<open>
  The values of a Python float: the finite ones (rationals), the two infinities and
  NaN. Every comparison with NaN is false.
\<close>

datatype pyfloat = Finite rat | PosInf | NegInf | NaN

fun float_lt :: "pyfloat \<Rightarrow> pyfloat \<Rightarrow> bool" where
  "float_lt NaN y = False"
| "float_lt x NaN = False"
| "float_lt PosInf y = False"
| "float_lt x NegInf = False"
| "float_lt NegInf y = True"
| "float_lt x PosInf = True"
| "float_lt (Finite a) (Finite b) = (a < b)"

text \<open>\<^verbatim>\<open>'%.2f' % x\<close>\<close>

fun fmt_2f :: "pyfloat \<Rightarrow> string" where
  "fmt_2f (Finite q) = fmt_fixed 2 q"
| "fmt_2f PosInf = ''inf''"
| "fmt_2f NegInf = ''-inf''"
| "fmt_2f NaN = ''nan''"

definition THUMB_SMALLEST :: pyfloat where
  "THUMB_SMALLEST = Finite 1"

definition THUMB_LARGEST :: pyfloat where
  "THUMB_LARGEST = Finite 2"

text \<open>
  The \<^verbatim>\<open>try\<close> block that limits \<^verbatim>\<open>opts.thumb_width\<close>. The argument is what
  \<^verbatim>\<open>float(opts.thumb_width)\<close> gives for the option as entered: \<open>None\<close> when it raises,
  which sends control to the \<^verbatim>\<open>except\<close> branch. The result is the new
  \<^verbatim>\<open>opts.thumb_width\<close>.
\<close>

definition limit_thumb_width :: "pyfloat option \<Rightarrow> string" where
  "limit_thumb_width w =
     (case w of
        None \<Rightarrow> ''1.0''
      | Some x \<Rightarrow>
          (let x1 = (if float_lt x THUMB_SMALLEST then THUMB_SMALLEST else x);
               x2 = (if float_lt THUMB_LARGEST x1 then THUMB_LARGEST else x1)
           in fmt_2f x2))"

text \<open>A string of the form \<^verbatim>\<open>d.dd\<close> or longer: digits, a point, two digits.\<close>

definition two_decimals :: "string \<Rightarrow> bool" where
  "two_decimals s =
     (3 < length s \<and> rev s ! 2 = CHR ''.'' \<and> is_digit (rev s ! 0) \<and> is_digit (rev s ! 1) \<and>
      list_all is_digit (drop 3 (rev s)))"

section \<open>The thumbnail cache: \<^verbatim>\<open>generateThumbnail\<close>\<close>

text \<open>\<^verbatim>\<open>hex(n)\<close> for a machine-size integer.\<close>

definition hex_digit :: "nat \<Rightarrow> char" where
  "hex_digit d = (if d < 10 then char_of (48 + d) else char_of (87 + d))"

fun show_hex :: "nat \<Rightarrow> string" where
  "show_hex n = (if n < 16 then [hex_digit n] else show_hex (n div 16) @ [hex_digit (n mod 16)])"

declare show_hex.simps [simp del]

definition py_hex :: "int \<Rightarrow> string" where
  "py_hex i = (if i < 0 then ''-0x'' else ''0x'') @ show_hex (nat \<bar>i\<bar>)"

text \<open>
  The files on disk are a map from paths to contents. The thumbnail archive
  \<^verbatim>\<open>thumbs.zip\<close> is what \<^verbatim>\<open>ZipFile.getinfo\<close> and \<^verbatim>\<open>ZipFile.read\<close> see of it: a map
  from member names to the member's comment and data; \<^verbatim>\<open>writestr\<close> sets the entry
  of its name.
\<close>

record thumb_store =
  files :: "string \<rightharpoonup> string"
  archive :: "string \<rightharpoonup> string \<times> string"

definition path_join :: "string \<Rightarrow> string \<Rightarrow> string" where
  "path_join dir name = dir @ ''/'' @ name"

definition rename :: "string \<Rightarrow> string \<Rightarrow> (string \<rightharpoonup> string) \<Rightarrow> (string \<rightharpoonup> string)" where
  "rename src dst fs = (if src = dst then fs else (fs(src := None))(dst := fs src))"

text \<open>
  \<^verbatim>\<open>generateThumbnail(title, image_dir, thumb_file)\<close>. \<^verbatim>\<open>zlib.crc32\<close> and the image
  codec's \<^verbatim>\<open>thumbnail\<close> are library functions, the parameters \<open>crc32\<close> and \<open>thumbnail\<close>;
  the codec returns \<open>None\<close> where it raises.
\<close>

definition generateThumbnail ::
  "(string \<Rightarrow> int) \<Rightarrow> (string \<Rightarrow> string option) \<Rightarrow> string \<Rightarrow> string \<Rightarrow> book \<Rightarrow>
   thumb_store \<Rightarrow> py_error + thumb_store" where
  "generateThumbnail crc32 thumbnail image_dir thumb_file t st =
     (case cover t of
        None \<Rightarrow> Inl KeyError
      | Some path \<Rightarrow>
          (case files st path of
             None \<Rightarrow> Inl IOError
           | Some data \<Rightarrow>
               (let cover_crc = py_hex (crc32 data);
                    cached = (case archive st (uuid t) of
                                None \<Rightarrow> None
                              | Some (comment, thumb_data) \<Rightarrow>
                                  if comment = cover_crc then Some thumb_data else None)
                in case cached of
                     Some thumb_data \<Rightarrow>
                       Inr (st\<lparr>files :=
                              rename (path_join image_dir (uuid t)) (path_join image_dir thumb_file)
                                ((files st)(path_join image_dir (uuid t) \<mapsto> thumb_data))\<rparr>)
                   | None \<Rightarrow>
                       (case thumbnail data of
                          None \<Rightarrow> Inl ThumbnailError
                        | Some thumb_data \<Rightarrow>
                            Inr (st\<lparr>files := (files st)(path_join image_dir thumb_file \<mapsto> thumb_data),
                                   archive := (archive st)(uuid t \<mapsto> (cover_crc, thumb_data))\<rparr>)))))"

section \<open>The CSV writer: \<^verbatim>\<open>CSV_XML.run\<close>\<close>

text \<open>
  The value of a field of a database record: \<^verbatim>\<open>None\<close>, a text, a list of texts
  (authors, tags, formats), a date, or a value of another type, given by the text
  that \<^verbatim>\<open>unicode()\<close> makes of it.
\<close>

datatype field_value = NoneV | Text string | Items "string list" | Date datetime | Other string

text \<open>
  What the writer takes from outside the source file: \<^verbatim>\<open>db.get_field\<close> for the
  custom fields, whose names start with \<^verbatim>\<open>#\<close>, \<^verbatim>\<open>isoformat\<close> from
  \<^verbatim>\<open>calibre.utils.date\<close>, and the texts \<^verbatim>\<open>unicode()\<close> makes of a list and of a date.
\<close>

record csv_env =
  get_field :: "nat \<Rightarrow> string \<Rightarrow> field_value"
  isoformat :: "datetime \<Rightarrow> string"
  unicode_items :: "string list \<Rightarrow> string"
  unicode_date :: "datetime \<Rightarrow> string"

record entry =
  entry_id :: nat
  entry_fields :: "string \<rightharpoonup> field_value"

text \<open>\<^verbatim>\<open>s.rpartition('.')[2]\<close>: what follows the last point, or all of \<open>s\<close>.\<close>

definition rpartition_last :: "string \<Rightarrow> string" where
  "rpartition_last s = rev (takeWhile (\<lambda>c. c \<noteq> CHR ''.'') (rev s))"

text \<open>\<^verbatim>\<open>s.replace(u'\r\n', u' ').replace(u'\n', u' ')\<close>\<close>

fun replace_crlf :: "string \<Rightarrow> string" where
  "replace_crlf [] = []"
| "replace_crlf [c] = [c]"
| "replace_crlf (c # d # cs) =
     (if c = CHR 0x0D \<and> d = CHR 0x0A then CHR '' '' # replace_crlf cs
      else c # replace_crlf (d # cs))"

fun replace_lf :: "string \<Rightarrow> string" where
  "replace_lf [] = []"
| "replace_lf (c # cs) = (if c = CHR 0x0A then CHR '' '' else c) # replace_lf cs"

text \<open>\<^verbatim>\<open>s.replace('"', '""')\<close>\<close>

fun replace_quote :: "string \<Rightarrow> string" where
  "replace_quote [] = []"
| "replace_quote (c # cs) =
     (if c = CHR 0x22 then CHR 0x22 # CHR 0x22 # replace_quote cs else c # replace_quote cs)"

text \<open>
  The chain of \<^verbatim>\<open>if\<close>/\<^verbatim>\<open>elif\<close> on the field's name, and the final \<^verbatim>\<open>unicode(item)\<close>.
  The result is \<open>None\<close> for an item that is \<^verbatim>\<open>None\<close>.
\<close>

definition csv_item :: "csv_env \<Rightarrow> string \<Rightarrow> field_value \<Rightarrow> py_error + string option" where
  "csv_item E field item =
     (if item = NoneV then Inr None
      else if field = ''formats'' then
        (case item of
           Items fs \<Rightarrow> Inr (Some (join '', '' (map (\<lambda>f. lower (rpartition_last f)) fs)))
         | _ \<Rightarrow> Inl TypeError)
      else if field \<in> set [''authors'', ''tags''] then
        (case item of Items xs \<Rightarrow> Inr (Some (join '', '' xs)) | _ \<Rightarrow> Inl TypeError)
      else if field = ''isbn'' then
        (case item of Text s \<Rightarrow> Inr (Some (filter is_digit s)) | _ \<Rightarrow> Inl TypeError)
      else if field \<in> set [''pubdate'', ''timestamp''] then
        (case item of Date d \<Rightarrow> Inr (Some (isoformat E d)) | _ \<Rightarrow> Inl TypeError)
      else if field = ''comments'' then
        (case item of Text s \<Rightarrow> Inr (Some (replace_lf (replace_crlf s))) | _ \<Rightarrow> Inl TypeError)
      else
        (case item of
           Text s \<Rightarrow> Inr (Some s)
         | Items xs \<Rightarrow> Inr (Some (unicode_items E xs))
         | Date d \<Rightarrow> Inr (Some (unicode_date E d))
         | Other s \<Rightarrow> Inr (Some s)
         | NoneV \<Rightarrow> Inr None))"

text \<open>The inner loop over \<^verbatim>\<open>fields\<close>, which appends to \<^verbatim>\<open>outstr\<close>.\<close>

fun csv_fields_loop ::
  "csv_env \<Rightarrow> entry \<Rightarrow> string list \<Rightarrow> string list \<Rightarrow> py_error + string list" where
  "csv_fields_loop E e [] outstr = Inr outstr"
| "csv_fields_loop E e (field # fieldnames) outstr =
     (case (if field \<noteq> [] \<and> hd field = CHR ''#'' then Inr (get_field E (entry_id e) field)
            else case entry_fields e field of None \<Rightarrow> Inl KeyError | Some v \<Rightarrow> Inr v) of
        Inl err \<Rightarrow> Inl err
      | Inr item \<Rightarrow>
          (case csv_item E field item of
             Inl err \<Rightarrow> Inl err
           | Inr None \<Rightarrow> csv_fields_loop E e fieldnames (outstr @ [[CHR 0x22, CHR 0x22]])
           | Inr (Some s) \<Rightarrow>
               csv_fields_loop E e fieldnames (outstr @ [[CHR 0x22] @ replace_quote s @ [CHR 0x22]])))"

text \<open>The outer loop over \<^verbatim>\<open>data\<close>, which writes one joined \<^verbatim>\<open>outstr\<close> per entry.\<close>

fun csv_entries_loop ::
  "csv_env \<Rightarrow> string list \<Rightarrow> entry list \<Rightarrow> string \<Rightarrow> py_error + string" where
  "csv_entries_loop E fieldnames [] outfile = Inr outfile"
| "csv_entries_loop E fieldnames (e # es) outfile =
     (case csv_fields_loop E e fieldnames [] of
        Inl err \<Rightarrow> Inl err
      | Inr outstr \<Rightarrow> csv_entries_loop E fieldnames es (outfile @ join '','' outstr @ [CHR 0x0A]))"

text \<open>
  The \<^verbatim>\<open>csv\<close> branch of \<^verbatim>\<open>run\<close>, given the fields and the records that
  \<^verbatim>\<open>get_output_fields\<close> and \<^verbatim>\<open>search_sort_db\<close> return: the bytes written to the
  output file.
\<close>

definition CSV_run :: "csv_env \<Rightarrow> string list \<Rightarrow> entry list \<Rightarrow> py_error + string" where
  "CSV_run E fieldnames data =
     csv_entries_loop E fieldnames data
       ([CHR 0xEF, CHR 0xBB, CHR 0xBF] @ join '','' fieldnames @ [CHR 0x0A])"

text \<open>The item that \<^verbatim>\<open>run\<close> reads for a field of an entry.\<close>

definition entry_item :: "csv_env \<Rightarrow> entry \<Rightarrow> string \<Rightarrow> field_value option" where
  "entry_item E e field =
     (if field \<noteq> [] \<and> hd field = CHR ''#'' then Some (get_field E (entry_id e) field)
      else entry_fields e field)"

text \<open>The cell written for a field of an entry whose item is read and rendered without error.\<close>

definition csv_cell :: "csv_env \<Rightarrow> entry \<Rightarrow> string \<Rightarrow> string" where
  "csv_cell E e f =
     (case csv_item E f (the (entry_item E e f)) of
        Inr None \<Rightarrow> [CHR 0x22, CHR 0x22]
      | Inr (Some text) \<Rightarrow>
          [CHR 0x22] @ concat (map (\<lambda>c. if c = CHR 0x22 then [CHR 0x22, CHR 0x22] else [c]) text) @ [CHR 0x22])"

section \<open>Properties\<close>

text \<open>
  C6, evaluated at a list with a single book. The claim asks for one entry per
  author with that author's number of books, also for a single-book list; the code
  returns the author twice, each time with the count 0, because the count starts at
  0 and the entry is appended both in the loop and in the \<^verbatim>\<open>else\<close> clause after it.
\<close>

theorem fetchBooksByAuthor_single_book:
  "map_sum id (\<lambda>(ok, self). (ok, authors self))
     (fetchBooksByAuthor (\<lambda>t. t) (\<lambda>t. t)
        (new_builder all_sections (Some [mk_book ''Jane Doe'' ''Doe, Jane'' ''Emma''])))
   = Inr (True, [(''Jane Doe'', ''Doe, jane'', 0), (''Jane Doe'', ''Doe, jane'', 0)])"
  by code_simp

subsection \<open>Decimal formatting\<close>

lemma char_of_48: "char_of (48::nat) = CHR ''0''" by code_simp

lemma show_nat_digit: "n < 10 \<Longrightarrow> show_nat n = [digit_char n]" by (simp add: show_nat.simps)

lemma show_nat_two: "10 \<le> n \<Longrightarrow> n < 100 \<Longrightarrow> show_nat n = [digit_char (n div 10), digit_char (n mod 10)]"
  by (subst show_nat.simps) (simp add: show_nat_digit)

lemma zjust2: "m < 100 \<Longrightarrow> zjust 2 (show_nat m) = [digit_char (m div 10), digit_char (m mod 10)]"
  by (cases "m < 10") (simp_all add: zjust_def show_nat_digit show_nat_two digit_char_def char_of_48)

lemma rhe_bounds:
  assumes "of_nat a \<le> r" "r \<le> of_nat b"
  shows "a \<le> round_half_even r \<and> round_half_even r \<le> b"
proof -
  let ?f = "nat \<lfloor>r\<rfloor>"
  have r0: "0 \<le> r" using assms(1) by (meson of_nat_0_le_iff order_trans)
  have "int a \<le> \<lfloor>r\<rfloor>" using assms(1) by (simp add: le_floor_iff)
  then have fa: "a \<le> ?f" by linarith
  have "\<lfloor>r\<rfloor> \<le> int b" using assms(2) by (simp add: floor_le_iff) 
  then have fb: "?f \<le> b" by linarith
  have "?f = b \<Longrightarrow> r - of_nat ?f < 1 / 2" using assms(2) by simp
  then have "\<not> r - of_nat ?f < 1 / 2 \<Longrightarrow> Suc ?f \<le> b" using fb by (cases "?f = b") auto
  then show ?thesis using fa fb
    by (simp add: round_half_even_def Let_def)
qed

lemma limit_finite: "limit_thumb_width (Some (Finite q)) = fmt_fixed 2 (max 1 (min 2 q))"
  by (auto simp: limit_thumb_width_def THUMB_SMALLEST_def THUMB_LARGEST_def Let_def max_def min_def)

lemma fmt_fixed_2_shape:
  assumes "1 \<le> v" "v \<le> 2"
  shows "\<exists>a b c. a < 10 \<and> b < 10 \<and> c < 10 \<and>
           fmt_fixed 2 v = [digit_char a, CHR ''.'', digit_char b, digit_char c] \<and>
           100 \<le> 100 * a + 10 * b + c \<and> 100 * a + 10 * b + c \<le> 200 \<and>
           100 * a + 10 * b + c = round_half_even (100 * v)"
proof -
  let ?s = "round_half_even (100 * v)"
  have b: "100 \<le> ?s \<and> ?s \<le> 200"
    using rhe_bounds[of 100 "100 * v" 200] assms by simp
  have abs: "round_half_even (\<bar>v\<bar> * 10 ^ 2) = ?s" using assms by (simp add: mult.commute)
  have d: "?s div 100 < 10" using b by linarith
  have m: "?s mod 100 < 100" by simp
  have eq: "fmt_fixed 2 v = [digit_char (?s div 100), CHR ''.'', digit_char (?s mod 100 div 10), digit_char (?s mod 100 mod 10)]"
    unfolding fmt_fixed_def Let_def abs using assms d by (simp add: show_nat_digit zjust2[OF m])
  have sum: "100 * (?s div 100) + 10 * (?s mod 100 div 10) + ?s mod 100 mod 10 = ?s" by presburger
  have e: "?s mod 100 div 10 < 10" by linarith
  have f: "?s mod 100 mod 10 < 10" by simp
  show ?thesis
    using b d e f eq sum by metis
qed

subsection \<open>The thumbnail width option\<close>

text \<open>
  C10, as stated: after validation the option is a two-decimal string, for every input.
  It is not so when the option cannot be parsed: the \<^verbatim>\<open>except\<close> branch stores the
  literal \<^verbatim>\<open>"1.0"\<close>, which has one decimal.
\<close>

theorem limit_thumb_width_unparsable: "\<not> two_decimals (limit_thumb_width None)" by code_simp

text \<open>
  C10, amended: an option that cannot be parsed is replaced by the string \<^verbatim>\<open>1.0\<close>; an
  option that parses to a number \<open>q\<close> (or to an infinity) becomes \<^verbatim>\<open>d.dd\<close>, the
  two-decimal rendering of \<open>q\<close> limited to the interval from 1 to 2, so 1.00 for every
  value below 1 and 2.00 for every value above 2.
\<close>

theorem limit_thumb_width_result:
  "limit_thumb_width None = ''1.0'' \<and>
   limit_thumb_width (Some PosInf) = ''2.00'' \<and>
   limit_thumb_width (Some NegInf) = ''1.00'' \<and>
   (\<forall>q. \<exists>a b c. a < 10 \<and> b < 10 \<and> c < 10 \<and>
      limit_thumb_width (Some (Finite q)) = [digit_char a, CHR ''.'', digit_char b, digit_char c] \<and>
      100 \<le> 100 * a + 10 * b + c \<and> 100 * a + 10 * b + c \<le> 200 \<and>
      100 * a + 10 * b + c = round_half_even (100 * max 1 (min 2 q)))"
proof -
  have 1: "limit_thumb_width None = ''1.0''" by (simp add: limit_thumb_width_def)
  have 2: "limit_thumb_width (Some PosInf) = ''2.00''" by code_simp
  have 3: "limit_thumb_width (Some NegInf) = ''1.00''" by code_simp
  have 4: "\<exists>a b c. a < 10 \<and> b < 10 \<and> c < 10 \<and>
      limit_thumb_width (Some (Finite q)) = [digit_char a, CHR ''.'', digit_char b, digit_char c] \<and>
      100 \<le> 100 * a + 10 * b + c \<and> 100 * a + 10 * b + c \<le> 200 \<and>
      100 * a + 10 * b + c = round_half_even (100 * max 1 (min 2 q))" for q
    unfolding limit_finite by (rule fmt_fixed_2_shape) simp_all
  show ?thesis using 1 2 3 4 by blast
qed

subsection \<open>The thumbnail cache\<close>

text \<open>
  C3: for a book whose cover file can be read, \<^verbatim>\<open>generateThumbnail\<close> reuses the
  archived thumbnail exactly when the archive has an entry under the book's uuid whose
  comment is the CRC-32 of the cover's bytes: it then puts the archived data in the
  images directory under the thumbnail's name and leaves the archive alone. Otherwise
  it computes a new thumbnail, writes it to the images directory, and stores it in the
  archive under the uuid, with the new CRC as its comment.
\<close>

theorem generateThumbnail_cache:
  assumes "cover t = Some path" and "files st path = Some data"
  shows "(\<forall>thumb. archive st (uuid t) = Some (py_hex (crc32 data), thumb) \<longrightarrow>
            generateThumbnail crc32 thumbnail image_dir thumb_file t st =
              Inr (st\<lparr>files := ((files st)(path_join image_dir (uuid t) := None))
                                  (path_join image_dir thumb_file \<mapsto> thumb)\<rparr>)) \<and>
         ((\<forall>thumb. archive st (uuid t) \<noteq> Some (py_hex (crc32 data), thumb)) \<longrightarrow>
            (\<forall>new. thumbnail data = Some new \<longrightarrow>
               generateThumbnail crc32 thumbnail image_dir thumb_file t st =
                 Inr (st\<lparr>files := (files st)(path_join image_dir thumb_file \<mapsto> new),
                        archive := (archive st)(uuid t \<mapsto> (py_hex (crc32 data), new))\<rparr>)))"
proof (intro conjI allI impI)
  fix thumb
  assume a: "archive st (uuid t) = Some (py_hex (crc32 data), thumb)"
  show "generateThumbnail crc32 thumbnail image_dir thumb_file t st =
              Inr (st\<lparr>files := ((files st)(path_join image_dir (uuid t) := None))
                                  (path_join image_dir thumb_file \<mapsto> thumb)\<rparr>)"
    using assms a by (auto simp: generateThumbnail_def rename_def Let_def)
next
  fix new
  assume n: "\<forall>thumb. archive st (uuid t) \<noteq> Some (py_hex (crc32 data), thumb)"
    and t: "thumbnail data = Some new"
  have "(case archive st (uuid t) of None \<Rightarrow> None
         | Some (comment, thumb_data) \<Rightarrow> if comment = py_hex (crc32 data) then Some thumb_data else None) = None"
    using n by (auto split: option.splits)
  then show "generateThumbnail crc32 thumbnail image_dir thumb_file t st =
                 Inr (st\<lparr>files := (files st)(path_join image_dir thumb_file \<mapsto> new),
                        archive := (archive st)(uuid t \<mapsto> (py_hex (crc32 data), new))\<rparr>)"
    using assms t by (simp add: generateThumbnail_def Let_def)
qed

theorem generateThumbnail_cache_witness:
  "generateThumbnail (\<lambda>d. 5) (\<lambda>d. Some ''NEW'') ''images'' ''thumbnail_1.jpg''
     ((mk_book ''Jane Doe'' ''Doe, Jane'' ''Emma'')\<lparr>uuid := ''u1'', cover := Some ''c.jpg''\<rparr>)
     \<lparr>files = [''c.jpg'' \<mapsto> ''DATA''], archive = [''u1'' \<mapsto> (''0x5'', ''OLD'')]\<rparr>
   = Inr \<lparr>files = [''c.jpg'' \<mapsto> ''DATA'', ''images/thumbnail_1.jpg'' \<mapsto> ''OLD''],
          archive = [''u1'' \<mapsto> (''0x5'', ''OLD'')]\<rparr> \<and>
   generateThumbnail (\<lambda>d. 5) (\<lambda>d. Some ''NEW'') ''images'' ''thumbnail_1.jpg''
     ((mk_book ''Jane Doe'' ''Doe, Jane'' ''Emma'')\<lparr>uuid := ''u1'', cover := Some ''c.jpg''\<rparr>)
     \<lparr>files = [''c.jpg'' \<mapsto> ''DATA''], archive = [''u1'' \<mapsto> (''0x4'', ''OLD'')]\<rparr>
   = Inr \<lparr>files = [''c.jpg'' \<mapsto> ''DATA'', ''images/thumbnail_1.jpg'' \<mapsto> ''NEW''],
          archive = [''u1'' \<mapsto> (''0x5'', ''NEW'')]\<rparr>"
proof -
  have h: "py_hex 5 = ''0x5''" by code_simp
  let ?t = "(mk_book ''Jane Doe'' ''Doe, Jane'' ''Emma'')\<lparr>uuid := ''u1'', cover := Some ''c.jpg''\<rparr>"
  have c: "cover ?t = Some ''c.jpg''" by simp
  have u: "uuid ?t = ''u1''" by simp
  have f: "files \<lparr>files = [''c.jpg'' \<mapsto> ''DATA''], archive = a\<rparr> ''c.jpg'' = Some ''DATA''" for a by simp
  show ?thesis
    using generateThumbnail_cache[OF c f, of "[''u1'' \<mapsto> (''0x5'', ''OLD'')]" "\<lambda>d. 5" "\<lambda>d. Some ''NEW''" "''images''" "''thumbnail_1.jpg''"]
          generateThumbnail_cache[OF c f, of "[''u1'' \<mapsto> (''0x4'', ''OLD'')]" "\<lambda>d. 5" "\<lambda>d. Some ''NEW''" "''images''" "''thumbnail_1.jpg''"]
    by (simp add: h u path_join_def fun_upd_twist)
qed

subsection \<open>The CSV writer\<close>

lemma replace_quote_eq:
  "replace_quote s = concat (map (\<lambda>c. if c = CHR 0x22 then [CHR 0x22, CHR 0x22] else [c]) s)"
  by (induction s) auto

lemma csv_fields_loop_eq:
  assumes "\<forall>f \<in> set fs. \<exists>item r. entry_item E e f = Some item \<and> csv_item E f item = Inr r"
  shows "csv_fields_loop E e fs outstr = Inr (outstr @ map (csv_cell E e) fs)"
  using assms
proof (induction fs arbitrary: outstr)
  case Nil
  then show ?case by simp
next
  case (Cons f fs)
  from Cons.prems obtain item r where i: "entry_item E e f = Some item" and r: "csv_item E f item = Inr r"
    by auto
  have rest: "\<And>acc. csv_fields_loop E e fs acc = Inr (acc @ map (csv_cell E e) fs)"
    using Cons by simp
  show ?case
  proof (cases "f \<noteq> [] \<and> hd f = CHR ''#''")
    case True
    then have "item = get_field E (entry_id e) f" using i by (auto simp: entry_item_def split: if_splits)
    then show ?thesis using True r i rest
      by (cases r) (simp_all add: csv_cell_def replace_quote_eq)
  next
    case False
    then have "entry_fields e f = Some item" using i by (auto simp: entry_item_def split: if_splits)
    then show ?thesis using False r i rest
      by (cases r) (auto simp: csv_cell_def replace_quote_eq)
  qed
qed

lemma csv_entries_loop_eq:
  assumes "\<forall>e \<in> set es. \<forall>f \<in> set fs. \<exists>item r. entry_item E e f = Some item \<and> csv_item E f item = Inr r"
  shows "csv_entries_loop E fs es outfile =
           Inr (outfile @ concat (map (\<lambda>e. join '','' (map (csv_cell E e) fs) @ [CHR 0x0A]) es))"
  using assms
proof (induction es arbitrary: outfile)
  case Nil
  then show ?case by simp
next
  case (Cons e es)
  have "csv_fields_loop E e fs [] = Inr (map (csv_cell E e) fs)"
    using csv_fields_loop_eq[of fs E e "[]"] Cons.prems by simp
  then show ?case using Cons by simp
qed

lemma csv_item_None: "csv_item E f NoneV = Inr None"
  by (simp add: csv_item_def)

lemma csv_item_not_None: "item \<noteq> NoneV \<Longrightarrow> csv_item E f item \<noteq> Inr None"
  by (cases item) (auto simp: csv_item_def)

text \<open>
  C8: when every requested field of every record can be read and rendered, the CSV
  branch of \<^verbatim>\<open>run\<close> writes the UTF-8 byte-order mark, the field names joined by commas
  and a newline, and then, for each record in the order the database returned them, one
  newline-terminated line of the record's cells joined by commas. A cell is the item's
  text between double quotes with every double quote in it doubled, and two double
  quotes with nothing between them exactly for an item that is \<^verbatim>\<open>None\<close>.
\<close>

theorem CSV_run_output:
  assumes "\<forall>e \<in> set data. \<forall>f \<in> set fieldnames.
             \<exists>item r. entry_item E e f = Some item \<and> csv_item E f item = Inr r"
  shows "CSV_run E fieldnames data =
           Inr ([CHR 0xEF, CHR 0xBB, CHR 0xBF] @ join '','' fieldnames @ [CHR 0x0A] @
                concat (map (\<lambda>e. join '','' (map (\<lambda>f.
                   case csv_item E f (the (entry_item E e f)) of
                     Inr None \<Rightarrow> [CHR 0x22, CHR 0x22]
                   | Inr (Some text) \<Rightarrow>
                       [CHR 0x22] @
                       concat (map (\<lambda>c. if c = CHR 0x22 then [CHR 0x22, CHR 0x22] else [c]) text) @
                       [CHR 0x22]) fieldnames) @ [CHR 0x0A]) data)) \<and>
         (\<forall>f item. (csv_item E f item = Inr None) = (item = NoneV))"
proof -
  have "csv_cell E e = (\<lambda>f. case csv_item E f (the (entry_item E e f)) of
                     Inr None \<Rightarrow> [CHR 0x22, CHR 0x22]
                   | Inr (Some text) \<Rightarrow>
                       [CHR 0x22] @
                       concat (map (\<lambda>c. if c = CHR 0x22 then [CHR 0x22, CHR 0x22] else [c]) text) @
                       [CHR 0x22])" for e
    by (rule ext) (simp add: csv_cell_def)
  then have 1: "CSV_run E fieldnames data =
           Inr ([CHR 0xEF, CHR 0xBB, CHR 0xBF] @ join '','' fieldnames @ [CHR 0x0A] @
                concat (map (\<lambda>e. join '','' (map (\<lambda>f.
                   case csv_item E f (the (entry_item E e f)) of
                     Inr None \<Rightarrow> [CHR 0x22, CHR 0x22]
                   | Inr (Some text) \<Rightarrow>
                       [CHR 0x22] @
                       concat (map (\<lambda>c. if c = CHR 0x22 then [CHR 0x22, CHR 0x22] else [c]) text) @
                       [CHR 0x22]) fieldnames) @ [CHR 0x0A]) data))"
    using csv_entries_loop_eq[OF assms] by (simp add: CSV_run_def)
  have 2: "(csv_item E f item = Inr None) = (item = NoneV)" for f item
    using csv_item_None csv_item_not_None by blast
  show ?thesis using 1 2 by blast
qed

theorem CSV_run_output_witness:
  "CSV_run \<lparr>get_field = (\<lambda>i f. Text ''x''), isoformat = (\<lambda>d. ''2011''),
             unicode_items = concat, unicode_date = (\<lambda>d. ''2011'')\<rparr>
     [''title'', ''authors'', ''isbn'']
     [\<lparr>entry_id = 1, entry_fields = map_of [(''title'', Text [CHR ''a'', CHR 0x22, CHR ''b'']),
         (''authors'', Items [''X Y'', ''Z'']), (''isbn'', NoneV)]\<rparr>,
      \<lparr>entry_id = 2, entry_fields = map_of [(''title'', Text ''T''),
         (''authors'', Items [''U'']), (''isbn'', Text ''12-3'')]\<rparr>]
   = Inr ([CHR 0xEF, CHR 0xBB, CHR 0xBF] @ ''title,authors,isbn'' @ [CHR 0x0A] @
          [CHR 0x22, CHR ''a'', CHR 0x22, CHR 0x22, CHR ''b'', CHR 0x22] @ '','' @
          [CHR 0x22] @ ''X Y, Z'' @ [CHR 0x22] @ '','' @ [CHR 0x22, CHR 0x22, CHR 0x0A] @
          [CHR 0x22] @ ''T'' @ [CHR 0x22] @ '','' @ [CHR 0x22] @ ''U'' @ [CHR 0x22] @ '','' @
          [CHR 0x22] @ ''123'' @ [CHR 0x22, CHR 0x0A])"
  using CSV_run_output[of
      "[\<lparr>entry_id = 1, entry_fields = map_of [(''title'', Text [CHR ''a'', CHR 0x22, CHR ''b'']),
         (''authors'', Items [''X Y'', ''Z'']), (''isbn'', NoneV)]\<rparr>,
      \<lparr>entry_id = 2, entry_fields = map_of [(''title'', Text ''T''),
         (''authors'', Items [''U'']), (''isbn'', Text ''12-3'')]\<rparr>]"
      "[''title'', ''authors'', ''isbn'']"
      "\<lparr>get_field = (\<lambda>i f. Text ''x''), isoformat = (\<lambda>d. ''2011''),
             unicode_items = concat, unicode_date = (\<lambda>d. ''2011'')\<rparr>"]
  by (simp add: entry_item_def csv_item_def is_digit_def)

subsection \<open>The navigation document\<close>

text \<open>
  C1, evaluated at a library of one book with only the Titles section enabled. The
  claim asks for a \<^verbatim>\<open>playOrder\<close> on every \<^verbatim>\<open>navPoint\<close>, the values consecutive in
  document order. The document has three \<^verbatim>\<open>navPoint\<close>s: the periodical with
  \<^verbatim>\<open>playOrder\<close> 1, the Titles section with 3, and the article for the letter E with
  none. The article loop of \<^verbatim>\<open>generateNCXByTitle\<close> assigns the counter to the section's
  tag instead of the article's.
\<close>

theorem buildSources_titles_playOrder:
  "map_sum id (\<lambda>(ok, self). (ok, map_option play_orders (ncxSoup self)))
     (buildSources (mk_env [mk_record 1 ''Emma'' ''Jane Austen'' []] []) ''catalog''
        (new_builder only_titles None))
   = Inr (True, Some [Some 1, Some 3, None])"
  by code_simp

text \<open>
  C2, evaluated at a library of one book tagged Fiction with only the Genres section
  enabled. The claim asks that every \<^verbatim>\<open>src\<close> in the navigation document names a file
  that was written and is in the manifest. The periodical's \<^verbatim>\<open>src\<close> is
  \<^verbatim>\<open>content/ByGenres.html\<close>; the files written are \<^verbatim>\<open>content/Genre_fiction.html\<close> and the
  OPF and NCX files, and the manifest has no such entry either.
\<close>

theorem buildSources_genres_src:
  "map_sum id (\<lambda>(ok, self).
       (ok, map_option (map src_file \<circ> content_srcs) (ncxSoup self), written self,
        map snd (manifest self)))
     (buildSources (mk_env [mk_record 1 ''Emma'' ''Jane Austen'' [''Fiction'']] [''Fiction''])
        ''catalog'' (new_builder only_genres None))
   = Inr (True,
          Some [''content/ByGenres.html'', ''content/Genre_fiction.html'', ''content/Genre_fiction.html''],
          [''content/Genre_fiction.html'', ''catalog.opf'', ''catalog.ncx''],
          [''catalog.ncx'', ''content/stylesheet.css'', ''images/mastheadImage.gif'',
           ''content/Genre_fiction.html''])"
  by code_simp

subsection \<open>The author-sort check\<close>

lemma mismatch_loop_adjacent:
  "i \<noteq> 0 \<Longrightarrow> (mismatch_loop i cur xs \<noteq> None) = adjacent_mismatch (cur # xs)"
  by (induction xs arbitrary: i cur) auto

lemma mismatch_loop_0:
  "xs \<noteq> [] \<Longrightarrow> (mismatch_loop 0 (hd xs) xs \<noteq> None) = adjacent_mismatch xs"
  using mismatch_loop_adjacent[of "Suc 0"] by (cases xs) auto

lemma adjacent_mismatch_nth:
  "adjacent_mismatch xs =
     (\<exists>i. Suc i < length xs \<and> xs ! Suc i \<noteq> xs ! i \<and> fst (xs ! Suc i) = fst (xs ! i))"
proof (induction xs rule: adjacent_mismatch.induct)
  case (1 x y zs)
  show ?case
  proof
    assume "adjacent_mismatch (x # y # zs)"
    then consider "y \<noteq> x \<and> fst y = fst x" | "adjacent_mismatch (y # zs)" by auto
    then show "\<exists>i. Suc i < length (x # y # zs) \<and> (x # y # zs) ! Suc i \<noteq> (x # y # zs) ! i \<and>
                   fst ((x # y # zs) ! Suc i) = fst ((x # y # zs) ! i)"
    proof cases
      case 1
      then show ?thesis by (intro exI[of _ 0]) simp
    next
      case 2
      then obtain i where "Suc i < length (y # zs)" "(y # zs) ! Suc i \<noteq> (y # zs) ! i"
        "fst ((y # zs) ! Suc i) = fst ((y # zs) ! i)" using 1 by blast
      then show ?thesis by (intro exI[of _ "Suc i"]) simp
    qed
  next
    assume "\<exists>i. Suc i < length (x # y # zs) \<and> (x # y # zs) ! Suc i \<noteq> (x # y # zs) ! i \<and>
                   fst ((x # y # zs) ! Suc i) = fst ((x # y # zs) ! i)"
    then obtain i where i: "Suc i < length (x # y # zs)" "(x # y # zs) ! Suc i \<noteq> (x # y # zs) ! i"
        "fst ((x # y # zs) ! Suc i) = fst ((x # y # zs) ! i)" by blast
    show "adjacent_mismatch (x # y # zs)"
    proof (cases i)
      case 0
      then show ?thesis using i by simp
    next
      case (Suc j)
      then have "Suc j < length (y # zs) \<and> (y # zs) ! Suc j \<noteq> (y # zs) ! j \<and>
                 fst ((y # zs) ! Suc j) = fst ((y # zs) ! j)" using i by simp
      then have "adjacent_mismatch (y # zs)" using 1 by blast
      then show ?thesis by simp
    qed
  qed
qed simp_all

lemma fetchBooksByAuthor_False:
  assumes "booksByTitle self = Some titles" "titles \<noteq> []"
    and "adjacent_mismatch (map (\<lambda>r. (author r, author_sort r)) (sort_key (booksByAuthorSorter_author tsort) titles))"
  shows "\<exists>self' msg. fetchBooksByAuthor tsort T self = Inr (False, self') \<and>
           error self' = error self @ [''Metadata error'', msg] \<and>
           written self' = written self \<and> manifest self' = manifest self \<and>
           spine self' = spine self \<and> ncxSoup self' = ncxSoup self"
proof -
  let ?by = "sort_key (booksByAuthorSorter_author tsort) titles"
  let ?pairs = "map (\<lambda>r. (author r, author_sort r)) ?by"
  have "length ?by = length titles" by simp
  then have ne: "?pairs \<noteq> []" using assms(2) by (metis length_0_conv map_is_Nil_conv)
  have "(mismatch_loop 0 (hd ?pairs) ?pairs \<noteq> None) = adjacent_mismatch ?pairs"
    by (rule mismatch_loop_0[OF ne])
  then have "mismatch_loop 0 (hd ?pairs) ?pairs \<noteq> None"
    using assms(3) by blast
  then obtain a c where "mismatch_loop 0 (hd ?pairs) ?pairs = Some (a, c)" by auto
  then show ?thesis using assms(1) ne
    by (simp add: fetchBooksByAuthor_def Let_def)
qed

lemma fetchBooksByAuthor_True:
  assumes "booksByTitle self = Some titles" "titles \<noteq> []"
    and "\<not> adjacent_mismatch (map (\<lambda>r. (author r, author_sort r)) (sort_key (booksByAuthorSorter_author tsort) titles))"
  shows "\<exists>self'. fetchBooksByAuthor tsort T self = Inr (True, self') \<and> error self' = error self"
proof -
  let ?by = "sort_key (booksByAuthorSorter_author tsort) titles"
  let ?pairs = "map (\<lambda>r. (author r, author_sort r)) ?by"
  have "length ?by = length titles" by simp
  then have ne: "?pairs \<noteq> []" using assms(2) by (metis length_0_conv map_is_Nil_conv)
  have "(mismatch_loop 0 (hd ?pairs) ?pairs \<noteq> None) = adjacent_mismatch ?pairs"
    by (rule mismatch_loop_0[OF ne])
  then have "mismatch_loop 0 (hd ?pairs) ?pairs = None"
    using assms(3) by blast
  then show ?thesis using assms(1) ne
    by (simp add: fetchBooksByAuthor_def Let_def)
qed

lemma buildSources_abort:
  assumes "booksByTitle self = Some titles"
    and "fetchBooksByAuthor (title_sort_fn E) (icu_title E) self = Inr (False, self')"
  shows "buildSources E basename self = Inr (False, self')"
  using assms by (simp add: buildSources_def and_then_def)

text \<open>
  C9, as stated: whenever two books of the list have the same author but different
  \<^verbatim>\<open>author_sort\<close> values, \<^verbatim>\<open>fetchBooksByAuthor\<close> returns \<^verbatim>\<open>False\<close>. It does not when
  the two are not neighbours in the order of \<^verbatim>\<open>booksByAuthorSorter_author\<close>. That key
  starts with \<^verbatim>\<open>author_to_author_sort(author)\<close>, which is the same for the authors
  \<^verbatim>\<open>Smith\<close> and \<^verbatim>\<open>SMITH\<close>, so a book of one can sort between two books of the other;
  the loop compares each book with the one before it only.
\<close>

theorem fetchBooksByAuthor_same_name_counterexample:
  "author (mk_book ''Smith'' ''Smith, A'' ''Apple'') = author (mk_book ''Smith'' ''Smith, B'' ''Zebra'') \<and>
   author_sort (mk_book ''Smith'' ''Smith, A'' ''Apple'') \<noteq> author_sort (mk_book ''Smith'' ''Smith, B'' ''Zebra'') \<and>
   map_sum id (\<lambda>(ok, self). (ok, error self))
     (fetchBooksByAuthor (\<lambda>t. t) (\<lambda>t. t)
        (new_builder all_sections
           (Some [mk_book ''Smith'' ''Smith, A'' ''Apple'', mk_book ''SMITH'' ''Smyth'' ''Mango'',
                  mk_book ''Smith'' ''Smith, B'' ''Zebra''])))
   = Inr (True, [])"
  by code_simp

text \<open>
  C9, amended: for a list of books that is not empty, if some book has the same author
  as the book before it in the order of \<^verbatim>\<open>booksByAuthorSorter_author\<close> but another
  \<^verbatim>\<open>author_sort\<close>, then \<^verbatim>\<open>fetchBooksByAuthor\<close> appends \<^verbatim>\<open>Metadata error\<close> and a
  message to the error list and returns \<^verbatim>\<open>False\<close>, and \<^verbatim>\<open>buildSources\<close> returns
  \<^verbatim>\<open>False\<close> with no file written and no OPF or NCX content made; if there is no such
  pair of neighbours, and so in particular if no two books of the list have the same
  author and different \<^verbatim>\<open>author_sort\<close> values, \<^verbatim>\<open>fetchBooksByAuthor\<close> returns \<^verbatim>\<open>True\<close>
  and leaves the error list as it was.
\<close>

theorem fetchBooksByAuthor_mismatch:
  assumes "booksByTitle self = Some titles" and "titles \<noteq> []"
  shows "((\<exists>i. Suc i < length titles \<and>
            author (sort_key (booksByAuthorSorter_author (title_sort_fn E)) titles ! Suc i) =
            author (sort_key (booksByAuthorSorter_author (title_sort_fn E)) titles ! i) \<and>
            author_sort (sort_key (booksByAuthorSorter_author (title_sort_fn E)) titles ! Suc i) \<noteq>
            author_sort (sort_key (booksByAuthorSorter_author (title_sort_fn E)) titles ! i)) \<longrightarrow>
          (\<exists>self' msg.
             fetchBooksByAuthor (title_sort_fn E) (icu_title E) self = Inr (False, self') \<and>
             error self' = error self @ [''Metadata error'', msg] \<and>
             buildSources E basename self = Inr (False, self') \<and>
             written self' = written self \<and> manifest self' = manifest self \<and>
             spine self' = spine self \<and> ncxSoup self' = ncxSoup self)) \<and>
         ((\<forall>i. Suc i < length titles \<longrightarrow>
            author (sort_key (booksByAuthorSorter_author (title_sort_fn E)) titles ! Suc i) =
            author (sort_key (booksByAuthorSorter_author (title_sort_fn E)) titles ! i) \<longrightarrow>
            author_sort (sort_key (booksByAuthorSorter_author (title_sort_fn E)) titles ! Suc i) =
            author_sort (sort_key (booksByAuthorSorter_author (title_sort_fn E)) titles ! i)) \<longrightarrow>
          (\<exists>self'. fetchBooksByAuthor (title_sort_fn E) (icu_title E) self = Inr (True, self') \<and>
                   error self' = error self)) \<and>
         ((\<forall>b1 \<in> set titles. \<forall>b2 \<in> set titles. author b1 = author b2 \<longrightarrow> author_sort b1 = author_sort b2) \<longrightarrow>
          (\<exists>self'. fetchBooksByAuthor (title_sort_fn E) (icu_title E) self = Inr (True, self') \<and>
                   error self' = error self))"
proof -
  let ?by = "sort_key (booksByAuthorSorter_author (title_sort_fn E)) titles"
  let ?pairs = "map (\<lambda>r. (author r, author_sort r)) ?by"
  have len: "length ?by = length titles" by simp
  have adj: "adjacent_mismatch ?pairs =
     (\<exists>i. Suc i < length titles \<and> author (?by ! Suc i) = author (?by ! i) \<and>
           author_sort (?by ! Suc i) \<noteq> author_sort (?by ! i))"
    unfolding adjacent_mismatch_nth by (auto simp: len)
  have A: "adjacent_mismatch ?pairs \<Longrightarrow> (\<exists>self' msg.
             fetchBooksByAuthor (title_sort_fn E) (icu_title E) self = Inr (False, self') \<and>
             error self' = error self @ [''Metadata error'', msg] \<and>
             buildSources E basename self = Inr (False, self') \<and>
             written self' = written self \<and> manifest self' = manifest self \<and>
             spine self' = spine self \<and> ncxSoup self' = ncxSoup self)"
    using fetchBooksByAuthor_False[OF assms, of "title_sort_fn E" "icu_title E"]
          buildSources_abort[OF assms(1), of E _ basename] by blast
  have B: "\<not> adjacent_mismatch ?pairs \<Longrightarrow>
          (\<exists>self'. fetchBooksByAuthor (title_sort_fn E) (icu_title E) self = Inr (True, self') \<and>
                   error self' = error self)"
    using fetchBooksByAuthor_True[OF assms] by blast
  have C: "\<not> adjacent_mismatch ?pairs"
    if h: "\<forall>b1 \<in> set titles. \<forall>b2 \<in> set titles. author b1 = author b2 \<longrightarrow> author_sort b1 = author_sort b2"
  proof -
    have "author_sort (?by ! Suc i) = author_sort (?by ! i)"
      if "Suc i < length titles" "author (?by ! Suc i) = author (?by ! i)" for i
    proof -
      have "?by ! Suc i \<in> set ?by" "?by ! i \<in> set ?by" using that(1) len by (simp_all del: set_sort)
      then have "?by ! Suc i \<in> set titles" "?by ! i \<in> set titles" by simp_all
      then show ?thesis using h that(2) by blast
    qed
    then show ?thesis unfolding adj by blast
  qed
  show ?thesis using A B C adj by blast
qed

theorem fetchBooksByAuthor_mismatch_witness:
  "(\<exists>self'. buildSources (mk_env [] []) ''catalog''
             (new_builder all_sections
                (Some [mk_book ''Jane Doe'' ''Doe, Jane'' ''Emma'', mk_book ''Jane Doe'' ''Doe, J.'' ''Persuasion'']))
           = Inr (False, self') \<and> written self' = [] \<and> length (error self') = 2) \<and>
   (\<exists>self'. fetchBooksByAuthor (\<lambda>t. t) (\<lambda>t. t)
             (new_builder all_sections
                (Some [mk_book ''Jane Doe'' ''Doe, Jane'' ''Emma'', mk_book ''Jane Doe'' ''Doe, Jane'' ''Persuasion'']))
           = Inr (True, self') \<and> error self' = [])"
proof -
  let ?L1 = "[mk_book ''Jane Doe'' ''Doe, Jane'' ''Emma'', mk_book ''Jane Doe'' ''Doe, J.'' ''Persuasion'']"
  let ?L2 = "[mk_book ''Jane Doe'' ''Doe, Jane'' ''Emma'', mk_book ''Jane Doe'' ''Doe, Jane'' ''Persuasion'']"
  let ?E = "mk_env [] []"
  have f: "title_sort_fn ?E = (\<lambda>t. t)" "icu_title ?E = (\<lambda>t. t)" by (simp_all add: mk_env_def)
  have b1: "booksByTitle (new_builder all_sections (Some ?L1)) = Some ?L1"
    and b2: "booksByTitle (new_builder all_sections (Some ?L2)) = Some ?L2"
    by (simp_all add: new_builder_def)
  have n1: "?L1 \<noteq> []" and n2: "?L2 \<noteq> []" by simp_all
  have s1: "sort_key (booksByAuthorSorter_author (\<lambda>t. t)) ?L1 = ?L1" by code_simp
  have h1: "\<exists>i. Suc i < length ?L1 \<and>
            author (sort_key (booksByAuthorSorter_author (title_sort_fn ?E)) ?L1 ! Suc i) =
            author (sort_key (booksByAuthorSorter_author (title_sort_fn ?E)) ?L1 ! i) \<and>
            author_sort (sort_key (booksByAuthorSorter_author (title_sort_fn ?E)) ?L1 ! Suc i) \<noteq>
            author_sort (sort_key (booksByAuthorSorter_author (title_sort_fn ?E)) ?L1 ! i)"
    unfolding f s1 by (rule exI[of _ 0]) (simp add: mk_book_def)
  have h2: "\<forall>b1 \<in> set ?L2. \<forall>b2 \<in> set ?L2. author b1 = author b2 \<longrightarrow> author_sort b1 = author_sort b2"
    by (simp add: mk_book_def)
  have w: "written (new_builder all_sections (Some ?L1)) = []" "error (new_builder all_sections (Some ?L1)) = []"
     "error (new_builder all_sections (Some ?L2)) = []"
    by (simp_all add: new_builder_def)
  from fetchBooksByAuthor_mismatch[OF b1 n1, of ?E "''catalog''"] h1
  have A: "\<exists>self'. buildSources ?E ''catalog'' (new_builder all_sections (Some ?L1)) = Inr (False, self')
            \<and> written self' = [] \<and> length (error self') = 2"
    unfolding w by fastforce
  from fetchBooksByAuthor_mismatch[OF b2 n2, of ?E "''catalog''"] h2
  have B: "\<exists>self'. fetchBooksByAuthor (\<lambda>t. t) (\<lambda>t. t) (new_builder all_sections (Some ?L2)) = Inr (True, self')
            \<and> error self' = []"
    unfolding w f by blast
  show ?thesis using A B by blast
qed

subsection \<open>The order of right-aligned numbers\<close>

lemma of_char_digit_char: "d < 10 \<Longrightarrow> (of_char (digit_char d) :: nat) = 48 + d"
  by (simp add: digit_char_def)

lemma digit_char_less: "d < e \<Longrightarrow> e < 10 \<Longrightarrow> digit_char d < digit_char e"
  by (simp add: less_char_def of_char_digit_char)

lemma space_less_digit: "d < 10 \<Longrightarrow> CHR '' '' < digit_char d"
  by (simp add: less_char_def of_char_digit_char)

lemma is_digit_digit_char: "d < 10 \<Longrightarrow> is_digit (digit_char d)"
  by (simp add: is_digit_def of_char_digit_char)

lemma show_nat_ne: "show_nat n \<noteq> []"
  by (subst show_nat.simps) simp

lemma show_nat_digits: "\<forall>c \<in> set (show_nat n). is_digit c"
proof (induction n rule: show_nat.induct)
  case (1 n)
  show ?case
  proof (cases "n < 10")
    case True
    then show ?thesis by (subst show_nat.simps) (simp add: is_digit_digit_char)
  next
    case False
    then show ?thesis using 1 by (subst show_nat.simps) (simp add: is_digit_digit_char)
  qed
qed

lemma length_show_nat: "length (show_nat n) = (if n < 10 then 1 else Suc (length (show_nat (n div 10))))"
  by (subst show_nat.simps) simp

lemma length_show_nat_le: "n < 10 ^ k \<Longrightarrow> 0 < k \<Longrightarrow> length (show_nat n) \<le> k"
proof (induction n arbitrary: k rule: show_nat.induct)
  case (1 n)
  show ?case
  proof (cases "n < 10")
    case True
    then show ?thesis using 1(3) by (simp add: length_show_nat)
  next
    case False
    then obtain j where k: "k = Suc j" using 1(3) by (cases k) auto
    have "0 < j" using False 1(2) k by (cases j) auto
    moreover have "n div 10 < 10 ^ j" using 1(2) k by (simp add: less_mult_imp_div_less mult.commute)
    ultimately have "length (show_nat (n div 10)) \<le> j" using 1(1)[OF False] by simp
    then show ?thesis using False k by (simp add: length_show_nat)
  qed
qed

lemma length_show_nat_mono: "a \<le> b \<Longrightarrow> length (show_nat a) \<le> length (show_nat b)"
proof (induction b arbitrary: a rule: show_nat.induct)
  case (1 b)
  show ?case
  proof (cases "a < 10")
    case True
    then show ?thesis by (simp add: length_show_nat[of a] length_show_nat[of b])
  next
    case False
    then have b: "\<not> b < 10" using 1(2) by simp
    have "a div 10 \<le> b div 10" using 1(2) by (simp add: div_le_mono)
    then have "length (show_nat (a div 10)) \<le> length (show_nat (b div 10))" using 1(1)[OF b] by simp
    then show ?thesis using False b by (simp add: length_show_nat[of a] length_show_nat[of b])
  qed
qed

lemma less_append_same_length:
  "length x = length y \<Longrightarrow> x < y \<Longrightarrow> x @ u < y @ (v :: 'a :: linorder list)"
proof (induction x arbitrary: y)
  case Nil
  then show ?case by simp
next
  case (Cons a x)
  then obtain b y' where y: "y = b # y'" by (cases y) auto
  then show ?case using Cons by (auto simp: y)
qed

lemma less_same_prefix: "(p @ x < p @ y) = (x < (y :: 'a :: linorder list))"
  by (induction p) auto

lemma show_nat_less:
  "a < b \<Longrightarrow> length (show_nat a) = length (show_nat b) \<Longrightarrow> show_nat a < show_nat b"
proof (induction b arbitrary: a rule: show_nat.induct)
  case (1 b)
  show ?case
  proof (cases "b < 10")
    case True
    then have "a < 10" using 1(2) by simp
    then show ?thesis using True 1(2)
      by (simp add: show_nat.simps[of a] show_nat.simps[of b] digit_char_less)
  next
    case False
    then have a: "\<not> a < 10" using 1(3) show_nat_ne[of "b div 10"]
      by (simp add: length_show_nat[of a] length_show_nat[of b] split: if_splits)
    have len: "length (show_nat (a div 10)) = length (show_nat (b div 10))"
      using 1(3) a False by (simp add: length_show_nat[of a] length_show_nat[of b])
    have sa: "show_nat a = show_nat (a div 10) @ [digit_char (a mod 10)]" using a by (subst show_nat.simps) simp
    have sb: "show_nat b = show_nat (b div 10) @ [digit_char (b mod 10)]" using False by (subst show_nat.simps) simp
    consider "a div 10 < b div 10" | "a div 10 = b div 10" "a mod 10 < b mod 10"
      using 1(2) by (metis div_le_mono le_neq_implies_less less_imp_le_nat mod_div_decomp nat_add_left_cancel_less)
    then show ?thesis
    proof cases
      case 1
      then have "show_nat (a div 10) < show_nat (b div 10)" using "1.IH"[OF False _ len] by simp
      then show ?thesis unfolding sa sb by (rule less_append_same_length[OF len])
    next
      case 2
      then show ?thesis unfolding sa sb by (simp add: less_same_prefix digit_char_less)
    qed
  qed
qed

lemma rjust_show_nat_less:
  assumes "a < b" "b < 10 ^ k" "0 < k"
  shows "rjust k (show_nat a) < rjust k (show_nat b)"
proof -
  let ?la = "length (show_nat a)" and ?lb = "length (show_nat b)"
  have le: "?la \<le> ?lb" using assms(1) by (simp add: length_show_nat_mono)
  have lb: "?lb \<le> k" using assms by (simp add: length_show_nat_le)
  show ?thesis
  proof (cases "?la = ?lb")
    case True
    then show ?thesis using show_nat_less[OF assms(1)] by (simp add: rjust_def less_same_prefix)
  next
    case False
    then have lt: "?la < ?lb" using le by simp
    obtain c cs where b: "show_nat b = c # cs" using show_nat_ne[of b] by (cases "show_nat b") auto
    have "is_digit c" using show_nat_digits[of b] b by simp
    then have c: "CHR '' '' < c" by (simp add: is_digit_def less_char_def)
    have "replicate (k - ?la) (CHR '' '') = replicate (k - ?lb) (CHR '' '') @ replicate (?lb - ?la) (CHR '' '')"
      using lt lb by (simp add: replicate_add[symmetric])
    moreover obtain m where "?lb - ?la = Suc m" using lt by (metis Suc_diff_Suc)
    ultimately have "rjust k (show_nat a) = replicate (k - ?lb) (CHR '' '') @ (CHR '' '' # replicate m (CHR '' '') @ show_nat a)"
      by (simp add: rjust_def)
    then show ?thesis using c by (simp add: rjust_def less_same_prefix b)
  qed
qed

lemma length_rjust: "length s \<le> k \<Longrightarrow> length (rjust k s) = k"
  by (simp add: rjust_def)

subsection \<open>Sort titles that start with a number\<close>

lemma split_acc_nonempty: "[] \<notin> set (split_acc w s)"
  by (induction s arbitrary: w) auto

lemma split_nonempty: "split s = w # ws \<Longrightarrow> w \<noteq> []"
  using split_acc_nonempty[of "[]" s] by (auto simp: split_def)

lemma format_number_word_eq:
  "format_number_word w =
     fmt_10_0f (leading_number w) @ dropWhile is_digit (filter (\<lambda>c. c \<noteq> CHR '','') w)"
proof (cases "\<exists>c \<in> set (filter (\<lambda>c. c \<noteq> CHR '','') w). \<not> is_digit c")
  case True
  then show ?thesis by (simp add: format_number_word_def leading_number_def Let_def)
next
  case False
  then have t: "takeWhile is_digit (filter (\<lambda>c. c \<noteq> CHR '','') w) = filter (\<lambda>c. c \<noteq> CHR '','') w"
    and d: "dropWhile is_digit (filter (\<lambda>c. c \<noteq> CHR '','') w) = []"
    by (auto simp: takeWhile_eq_all_conv)
  have "format_number_word w = fmt_10_0f (read_nat (filter (\<lambda>c. c \<noteq> CHR '','') w))"
    unfolding format_number_word_def Let_def using False by (simp only: if_False)
  then show ?thesis unfolding leading_number_def t d by simp
qed

lemma fmt_10_0f_small: "n < 10 ^ 10 \<Longrightarrow> fmt_10_0f n = rjust 10 (show_nat n)"
proof -
  assume n: "n < 10 ^ 10"
  have "(10::nat) ^ 10 < 2 ^ 53" by simp
  then have a: "n < 2 ^ 53" using n by linarith
  have "(2::nat) ^ 53 \<le> 2 ^ 1024" by (rule power_increasing) simp_all
  then have "\<not> (2::nat) ^ 1024 \<le> n" using a by linarith
  then show ?thesis using a by (simp add: fmt_10_0f_def float_of_nat_def Let_def)
qed

lemma plain_code: "plain c \<Longrightarrow> (of_char c :: nat) \<le> 57"
  by (auto simp: plain_def is_digit_def)

lemma plain_case: "plain c \<Longrightarrow> upper_char c = c \<and> lower_char c = c \<and> \<not> is_alpha c"
  by (auto simp: plain_def is_digit_def upper_char_def lower_char_def is_alpha_def is_lower_def is_upper_def)

lemma rjust_plain: "\<forall>c \<in> set (rjust k (show_nat n)). plain c"
  using show_nat_digits[of n] by (auto simp: rjust_def plain_def)

lemma rjust_ne: "rjust k (show_nat n) \<noteq> []"
  by (simp add: rjust_def show_nat_ne)

lemma lower_plain: "\<forall>c \<in> set s. plain c \<Longrightarrow> lower s = s"
  by (induction s) (auto simp: lower_def plain_case)

lemma capitalize_plain_prefix:
  "K \<noteq> [] \<Longrightarrow> \<forall>c \<in> set K. plain c \<Longrightarrow> capitalize (K @ suf) = K @ lower suf"
proof -
  assume ne: "K \<noteq> []" and pl: "\<forall>c \<in> set K. plain c"
  then obtain c cs where K: "K = c # cs" by (cases K) auto
  have "lower (cs @ suf) = cs @ lower suf" using lower_plain[of cs] pl K by (simp add: lower_def)
  then show ?thesis using pl K by (simp add: plain_case)
qed

lemma translate_words_digit:
  assumes "is_digit (hd w)" "leading_number w < 10 ^ 10"
  shows "translate_words 0 (w # ws) =
           (rjust 10 (show_nat (leading_number w)) @
            lower (dropWhile is_digit (filter (\<lambda>c. c \<noteq> CHR '','') w))) # translate_words (Suc 0) ws"
proof -
  let ?K = "rjust 10 (show_nat (leading_number w))"
  let ?suf = "dropWhile is_digit (filter (\<lambda>c. c \<noteq> CHR '','') w)"
  have f: "format_number_word w = ?K @ ?suf"
    using assms(2) by (simp add: format_number_word_eq fmt_10_0f_small)
  have pl: "\<forall>c \<in> set ?K. plain c" by (rule rjust_plain)
  have ne: "?K \<noteq> []" by (rule rjust_ne)
  then have hd: "hd (?K @ ?suf) = hd ?K" by simp
  have "hd ?K \<in> set ?K" using ne by simp
  then have p: "plain (hd ?K)" using pl by blast
  have c57: "(of_char (hd ?K) :: nat) \<le> 57" using p by (rule plain_code)
  then have "\<not> CHR ''A'' < hd ?K" by (simp add: less_char_def)
  then have nopre: "\<not> (letter_or_symbol (hd ?K) \<noteq> [hd ?K] \<and>
                (CHR ''A'' < hd ?K \<or> (57 < (of_char (hd ?K) :: nat) \<and> (of_char (hd ?K) :: nat) < 65)))"
    using c57 by simp
  show ?thesis
    using assms(1) nopre by (simp add: f hd Let_def capitalize_plain_prefix[OF ne pl])
qed

lemma join_Cons: "\<exists>R. join sep (x # rest) = x @ R"
  by (cases rest) auto

lemma is_upper_upper_char: "is_alpha c \<Longrightarrow> is_upper (upper_char c)"
  by (auto simp: is_alpha_def is_upper_def is_lower_def upper_char_def)

lemma translate_words_alpha:
  assumes "w \<noteq> []" "is_alpha (hd w)"
  shows "\<exists>c cs. translate_words 0 (w # ws) = (c # cs) # translate_words (Suc 0) ws \<and> is_upper c"
proof -
  obtain a as where w: "w = a # as" using assms(1) by (cases w) auto
  have nd: "\<not> is_digit a" using assms(2) w by (auto simp: is_alpha_def is_digit_def is_upper_def is_lower_def)
  have ls: "letter_or_symbol a = [a]" using assms(2) w by (simp add: letter_or_symbol_def)
  show ?thesis using assms(2) w nd ls by (simp add: is_upper_upper_char)
qed

text \<open>
  C4, amended: \<^verbatim>\<open>generateSortTitle\<close> applies \<^verbatim>\<open>title_sort\<close> and splits the result into
  words. When the first word starts with a digit and its number is below \<open>10 ^ 10\<close>, the
  key is the words joined by spaces, with the first word replaced by its number
  right-aligned in ten columns (commas removed) followed by the rest of the word in
  lower case. Of two such titles the one with the smaller number has the smaller key,
  and the key of such a title is smaller than the key of every title whose first word
  starts with a letter.
\<close>

theorem generateSortTitle_numeric_order:
  assumes "split (tsort t1) = w1 # ws1" and "is_digit (hd w1)" and "leading_number w1 < 10 ^ 10"
    and "split (tsort t2) = w2 # ws2" and "is_digit (hd w2)" and "leading_number w2 < 10 ^ 10"
  shows "generateSortTitle tsort t1 =
           join '' '' ((rjust 10 (show_nat (leading_number w1)) @
                        lower (dropWhile is_digit (filter (\<lambda>c. c \<noteq> CHR '','') w1))) #
                       translate_words (Suc 0) ws1) \<and>
         (leading_number w1 < leading_number w2 \<longrightarrow>
            generateSortTitle tsort t1 < generateSortTitle tsort t2) \<and>
         (\<forall>t3 w3 ws3. split (tsort t3) = w3 # ws3 \<and> is_alpha (hd w3) \<longrightarrow>
            generateSortTitle tsort t1 < generateSortTitle tsort t3)"
proof (intro conjI allI impI)
  let ?K1 = "rjust 10 (show_nat (leading_number w1))"
  let ?K2 = "rjust 10 (show_nat (leading_number w2))"
  show g1: "generateSortTitle tsort t1 =
           join '' '' ((?K1 @ lower (dropWhile is_digit (filter (\<lambda>c. c \<noteq> CHR '','') w1))) #
                       translate_words (Suc 0) ws1)"
    unfolding generateSortTitle_def assms(1) translate_words_digit[OF assms(2,3)] by (rule refl)
  obtain R1 where r1: "generateSortTitle tsort t1 = ?K1 @ R1"
    using g1 join_Cons[of "'' ''" "?K1 @ lower (dropWhile is_digit (filter (\<lambda>c. c \<noteq> CHR '','') w1))"
        "translate_words (Suc 0) ws1"] by auto
  have "generateSortTitle tsort t2 =
           join '' '' ((?K2 @ lower (dropWhile is_digit (filter (\<lambda>c. c \<noteq> CHR '','') w2))) #
                       translate_words (Suc 0) ws2)"
    unfolding generateSortTitle_def assms(4) translate_words_digit[OF assms(5,6)] by (rule refl)
  then obtain R2 where r2: "generateSortTitle tsort t2 = ?K2 @ R2"
    using join_Cons[of "'' ''" "?K2 @ lower (dropWhile is_digit (filter (\<lambda>c. c \<noteq> CHR '','') w2))"
        "translate_words (Suc 0) ws2"] by auto
  have l1: "length ?K1 = 10" using assms(3) by (simp add: length_rjust length_show_nat_le)
  have l2: "length ?K2 = 10" using assms(6) by (simp add: length_rjust length_show_nat_le)
  {
    assume "leading_number w1 < leading_number w2"
    then have "?K1 < ?K2" using assms(6) by (simp add: rjust_show_nat_less)
    then show "generateSortTitle tsort t1 < generateSortTitle tsort t2"
      unfolding r1 r2 using l1 l2 by (intro less_append_same_length) simp_all
  }
  {
    fix t3 w3 ws3
    assume a: "split (tsort t3) = w3 # ws3 \<and> is_alpha (hd w3)"
    then have "w3 \<noteq> []" using split_nonempty by blast
    then obtain c cs where tw: "translate_words 0 (w3 # ws3) = (c # cs) # translate_words (Suc 0) ws3"
      and up: "is_upper c" using translate_words_alpha a by blast
    obtain R3 where r3: "generateSortTitle tsort t3 = (c # cs) @ R3"
      using a tw join_Cons[of "'' ''" "c # cs" "translate_words (Suc 0) ws3"]
      by (auto simp: generateSortTitle_def)
    obtain k ks where K: "?K1 = k # ks" using rjust_ne[of 10 "leading_number w1"] by (cases ?K1) auto
    have "plain k" using rjust_plain[of 10 "leading_number w1"] K by simp
    then have "(of_char k :: nat) \<le> 57" by (rule plain_code)
    then have "k < c" using up by (simp add: less_char_def is_upper_def)
    then show "generateSortTitle tsort t1 < generateSortTitle tsort t3"
      unfolding r1 r3 K by simp
  }
qed

subsection \<open>Sort titles with long numbers\<close>

lemma char_of_digits:
  "char_of (48::nat) = CHR ''0''" "char_of (49::nat) = CHR ''1''" "char_of (50::nat) = CHR ''2''"
  by code_simp+

lemma l1: "leading_number ''20000000000'' = 20000000000" by (simp add: leading_number_def read_nat_def digit_val_def is_digit_def)

lemma l2: "leading_number ''100000000000'' = 100000000000" by (simp add: leading_number_def read_nat_def digit_val_def is_digit_def)

lemma sn1: "show_nat 20000000000 = ''20000000000''" by (simp add: show_nat.simps digit_char_def char_of_digits)

lemma sn2: "show_nat 100000000000 = ''100000000000''" by (simp add: show_nat.simps digit_char_def char_of_digits)

lemma f1: "format_number_word ''20000000000'' = ''20000000000''"
  by (simp add: format_number_word_def is_digit_def Let_def fmt_10_0f_def float_of_nat_def read_nat_def digit_val_def sn1 rjust_def)

lemma f2: "format_number_word ''100000000000'' = ''100000000000''"
  by (simp add: format_number_word_def is_digit_def Let_def fmt_10_0f_def float_of_nat_def read_nat_def digit_val_def sn2 rjust_def)

lemma g1: "generateSortTitle (\<lambda>t. t) ''20000000000'' = ''20000000000''"
  by (simp add: generateSortTitle_def split_def is_space_def f1 is_digit_def letter_or_symbol_def is_alpha_def is_upper_def is_lower_def upper_char_def lower_def lower_char_def less_char_def)

lemma g2: "generateSortTitle (\<lambda>t. t) ''100000000000'' = ''100000000000''"
  by (simp add: generateSortTitle_def split_def is_space_def f2 is_digit_def letter_or_symbol_def is_alpha_def is_upper_def is_lower_def upper_char_def lower_def lower_char_def less_char_def)

text \<open>
  C4, as stated: of every two titles that start with a number the keys compare as the
  numbers do. The field of ten columns holds numbers below \<open>10 ^ 10\<close>; a longer number
  is printed in full, with no padding, and then the keys compare by their first digits:
  the title 20000000000 gets a larger key than the title 100000000000.
\<close>

theorem generateSortTitle_long_number_counterexample:
  "is_digit (hd ''20000000000'') \<and> is_digit (hd ''100000000000'') \<and>
   leading_number ''20000000000'' < leading_number ''100000000000'' \<and>
   \<not> generateSortTitle (\<lambda>t. t) ''20000000000'' < generateSortTitle (\<lambda>t. t) ''100000000000''"
  by (simp add: l1 l2 g1 g2 is_digit_def)

theorem generateSortTitle_numeric_order_witness:
  "generateSortTitle (\<lambda>t. t) ''2 Guns'' < generateSortTitle (\<lambda>t. t) ''1,000 Nights'' \<and>
   generateSortTitle (\<lambda>t. t) ''2 Guns'' < generateSortTitle (\<lambda>t. t) ''Emma''"
proof -
  have s1: "split ''2 Guns'' = [''2'', ''Guns'']" by (simp add: split_def is_space_def)
  have s2: "split ''1,000 Nights'' = [''1,000'', ''Nights'']" by (simp add: split_def is_space_def)
  have s3: "split ''Emma'' = [''Emma''] \<and> is_alpha (hd ''Emma'')"
    by (simp add: split_def is_space_def is_alpha_def is_upper_def)
  have d1: "is_digit (hd ''2'')" by (simp add: is_digit_def)
  have d2: "is_digit (hd ''1,000'')" by (simp add: is_digit_def)
  have v1: "leading_number ''2'' = 2"
    by (simp add: leading_number_def read_nat_def digit_val_def is_digit_def)
  have v2: "leading_number ''1,000'' = 1000"
    by (simp add: leading_number_def read_nat_def digit_val_def is_digit_def)
  have n1: "leading_number ''2'' < 10 ^ 10" unfolding v1 by simp
  have n2: "leading_number ''1,000'' < 10 ^ 10" unfolding v2 by simp
  have lt: "leading_number ''2'' < leading_number ''1,000''" unfolding v1 v2 by simp
  show ?thesis
    using generateSortTitle_numeric_order[of "\<lambda>t. t", OF s1 d1 n1 s2 d2 n2] lt s3 by blast
qed

end
